theory Spec2Isabelle
  imports Complex_Main "HOL-Library.Log_Nat"
begin

section \<open>Invoice extraction and PO matching (src/app.py)\<close>

text \<open>
  A shallow embedding of the invoice engine of \<^verbatim>\<open>src/app.py\<close>: the fuzzy text
  primitives, the invoice number detector, the cost extractor, the chain of PO matching
  strategies of \<^verbatim>\<open>extract_invoice_data\<close>, and the page grouping of
  \<^verbatim>\<open>process_bulk_pdf\<close>.

  Texts are \<^typ>\<open>string\<close>s, read as sequences of the code points below 256
  (ASCII and Latin-1). The character functions below are Python's on these code points:
  \<^verbatim>\<open>str.isspace\<close>, \<^verbatim>\<open>str.upper\<close>, \<^verbatim>\<open>str.lower\<close>, and the classes \<^verbatim>\<open>\s\<close>,
  \<^verbatim>\<open>\d\<close>, \<^verbatim>\<open>\w\<close> of the \<^verbatim>\<open>re\<close> module on \<^verbatim>\<open>str\<close> patterns. Three code
  points have an uppercase form that is not a single code point below 256 (0xB5, 0xDF
  and 0xFF): \<open>upper\<close> leaves them unchanged.
\<close>

subsection \<open>Characters and Python's string methods\<close>

definition lowers :: string where
  "lowers = ''abcdefghijklmnopqrstuvwxyz''"

definition uppers :: string where
  "uppers = ''ABCDEFGHIJKLMNOPQRSTUVWXYZ''"

definition digits :: string where
  "digits = ''0123456789''"

text \<open>The letters of Latin-1 that have both cases (0xE0 to 0xFE and 0xC0 to 0xDE, without
  the signs 0xF7 and 0xD7), and its other code points that \<^verbatim>\<open>\w\<close> matches.\<close>

definition latin_lowers :: string where
  "latin_lowers =
     [CHR 0xE0, CHR 0xE1, CHR 0xE2, CHR 0xE3, CHR 0xE4, CHR 0xE5, CHR 0xE6, CHR 0xE7,
      CHR 0xE8, CHR 0xE9, CHR 0xEA, CHR 0xEB, CHR 0xEC, CHR 0xED, CHR 0xEE, CHR 0xEF,
      CHR 0xF0, CHR 0xF1, CHR 0xF2, CHR 0xF3, CHR 0xF4, CHR 0xF5, CHR 0xF6, CHR 0xF8,
      CHR 0xF9, CHR 0xFA, CHR 0xFB, CHR 0xFC, CHR 0xFD, CHR 0xFE]"

definition latin_uppers :: string where
  "latin_uppers =
     [CHR 0xC0, CHR 0xC1, CHR 0xC2, CHR 0xC3, CHR 0xC4, CHR 0xC5, CHR 0xC6, CHR 0xC7,
      CHR 0xC8, CHR 0xC9, CHR 0xCA, CHR 0xCB, CHR 0xCC, CHR 0xCD, CHR 0xCE, CHR 0xCF,
      CHR 0xD0, CHR 0xD1, CHR 0xD2, CHR 0xD3, CHR 0xD4, CHR 0xD5, CHR 0xD6, CHR 0xD8,
      CHR 0xD9, CHR 0xDA, CHR 0xDB, CHR 0xDC, CHR 0xDD, CHR 0xDE]"

definition latin_others :: string where
  "latin_others =
     [CHR 0xAA, CHR 0xB2, CHR 0xB3, CHR 0xB5, CHR 0xB9, CHR 0xBA, CHR 0xBC, CHR 0xBD,
      CHR 0xBE, CHR 0xDF, CHR 0xFF]"

text \<open>\<^verbatim>\<open>str.isspace\<close> and \<^verbatim>\<open>\s\<close>: space, TAB, LF, VT, FF, CR, the four separators
  0x1C to 0x1F, NEL (0x85) and the no-break space (0xA0).\<close>

definition is_space :: "char \<Rightarrow> bool" where
  "is_space c = (c \<in> set [CHR '' '', CHR 0x09, CHR 0x0A, CHR 0x0B, CHR 0x0C, CHR 0x0D,
                           CHR 0x1C, CHR 0x1D, CHR 0x1E, CHR 0x1F, CHR 0x85, CHR 0xA0])"

definition is_digit :: "char \<Rightarrow> bool" where
  "is_digit c = (c \<in> set digits)"

text \<open>The class \<^verbatim>\<open>[A-Za-z]\<close>, which IGNORECASE does not widen below 256.\<close>

definition is_alpha :: "char \<Rightarrow> bool" where
  "is_alpha c = (c \<in> set lowers \<or> c \<in> set uppers)"

text \<open>The class \<^verbatim>\<open>\w\<close>: letters and digits (those of Latin-1 too) and the
  underscore.\<close>

definition is_word :: "char \<Rightarrow> bool" where
  "is_word c =
     (is_alpha c \<or> is_digit c \<or> c = CHR ''_'' \<or>
      c \<in> set latin_lowers \<or> c \<in> set latin_uppers \<or> c \<in> set latin_others)"

definition upper_ch :: "char \<Rightarrow> char" where
  "upper_ch c =
     (case map_of (zip (lowers @ latin_lowers) (uppers @ latin_uppers)) c of
        Some u \<Rightarrow> u
      | None \<Rightarrow> c)"

definition lower_ch :: "char \<Rightarrow> char" where
  "lower_ch c =
     (case map_of (zip (uppers @ latin_uppers) (lowers @ latin_lowers)) c of
        Some l \<Rightarrow> l
      | None \<Rightarrow> c)"

definition upper :: "string \<Rightarrow> string" where
  "upper s = map upper_ch s"

definition lower :: "string \<Rightarrow> string" where
  "lower s = map lower_ch s"

text \<open>\<^verbatim>\<open>s.strip()\<close>.\<close>

definition strip :: "string \<Rightarrow> string" where
  "strip s = rev (dropWhile is_space (rev (dropWhile is_space s)))"

text \<open>\<^verbatim>\<open>s.replace(c, '')\<close> for a single character \<^verbatim>\<open>c\<close>.\<close>

definition remove_ch :: "char \<Rightarrow> string \<Rightarrow> string" where
  "remove_ch c s = filter (\<lambda>x. x \<noteq> c) s"

subsection \<open>Fuzzy text primitives\<close>

text \<open>\<^verbatim>\<open>re.sub(r'\s+', ' ', text)\<close>: every maximal run of whitespace becomes one space.\<close>

function collapse_ws :: "string \<Rightarrow> string" where
  "collapse_ws [] = []"
| "collapse_ws (c # cs) =
     (if is_space c then CHR '' '' # collapse_ws (dropWhile is_space cs)
      else c # collapse_ws cs)"
  by pat_completeness auto
termination
  by (relation "measure length") (auto simp: less_Suc_eq_le length_dropWhile_le)

text \<open>\<^verbatim>\<open>re.sub(r'[^\w\s]', '', text)\<close>: only word characters and whitespace stay.\<close>

definition strip_punct :: "string \<Rightarrow> string" where
  "strip_punct s = filter (\<lambda>c. is_word c \<or> is_space c) s"

text \<open>
  \<^verbatim>\<open>normalize_text_for_matching\<close>: the empty text gives the empty text; otherwise
  uppercase, collapse whitespace, drop punctuation, strip, in the source's order.
\<close>

definition normalize_text_for_matching :: "string \<Rightarrow> string" where
  "normalize_text_for_matching text =
     (if text = [] then []
      else strip (strip_punct (collapse_ws (upper text))))"

text \<open>
  \<^verbatim>\<open>levenshtein_distance\<close>. \<open>lev_row\<close> is the inner loop over \<^verbatim>\<open>s2\<close>: its
  arguments are the rest of \<^verbatim>\<open>previous_row\<close> from index \<^verbatim>\<open>j\<close>, the rest of \<^verbatim>\<open>s2\<close>
  and the entry \<^verbatim>\<open>current_row[j]\<close> appended last; it returns the entries appended from
  there on. \<open>lev_rows\<close> is the outer loop over \<^verbatim>\<open>enumerate(s1)\<close>.
\<close>

fun lev_row :: "char \<Rightarrow> nat list \<Rightarrow> string \<Rightarrow> nat \<Rightarrow> nat list" where
  "lev_row c1 (p0 # p1 # ps) (c2 # cs) cur =
     (let insertions = p1 + 1;
          deletions = cur + 1;
          substitutions = p0 + (if c1 \<noteq> c2 then 1 else 0);
          v = min (min insertions deletions) substitutions
      in v # lev_row c1 (p1 # ps) cs v)"
| "lev_row c1 ps cs cur = []"

fun lev_rows :: "nat \<Rightarrow> string \<Rightarrow> string \<Rightarrow> nat list \<Rightarrow> nat list" where
  "lev_rows i [] s2 previous_row = previous_row"
| "lev_rows i (c1 # s1) s2 previous_row =
     lev_rows (i + 1) s1 s2 ((i + 1) # lev_row c1 previous_row s2 (i + 1))"

definition lev_main :: "string \<Rightarrow> string \<Rightarrow> nat" where
  "lev_main s1 s2 =
     (if length s2 = 0 then length s1
      else last (lev_rows 0 s1 s2 [0..<length s2 + 1]))"

definition levenshtein_distance :: "string \<Rightarrow> string \<Rightarrow> nat" where
  "levenshtein_distance s1 s2 =
     (if length s1 < length s2 then lev_main s2 s1 else lev_main s1 s2)"

text \<open>
  \<^verbatim>\<open>fuzzy_match_score\<close>. The score is a Python float; it is modelled as the exact
  rational \<open>1 - distance / max_len\<close>. The thresholds the program compares it with
  (0.75, 0.70, 0.6) are met exactly by the float if and only if they are met by the
  rational.
\<close>

definition fuzzy_match_score :: "string \<Rightarrow> string \<Rightarrow> rat" where
  "fuzzy_match_score text1 text2 =
     (if text1 = [] \<or> text2 = [] then 0
      else
        let t1 = normalize_text_for_matching text1;
            t2 = normalize_text_for_matching text2
        in if t1 = [] \<or> t2 = [] then 0
           else if t1 = t2 then 1
           else
             let t1_no_space = remove_ch CHR '' '' t1;
                 t2_no_space = remove_ch CHR '' '' t2
             in if t1_no_space = t2_no_space then 98 / 100
                else
                  let longer = (if length t1_no_space \<ge> length t2_no_space
                                then t1_no_space else t2_no_space);
                      shorter = (if length t1_no_space \<ge> length t2_no_space
                                 then t2_no_space else t1_no_space)
                  in if length longer = 0 then 0
                     else
                       let distance = levenshtein_distance shorter longer;
                           max_len = length longer;
                           similarity = 1 - of_nat distance / of_nat max_len
                       in max 0 similarity)"

text \<open>\<^verbatim>\<open>s.startswith(p)\<close>, \<^verbatim>\<open>s.find(sub)\<close> (\<open>None\<close> for -1) and \<^verbatim>\<open>sub in s\<close>.\<close>

fun starts_with :: "string \<Rightarrow> string \<Rightarrow> bool" where
  "starts_with s [] = True"
| "starts_with [] (p # ps) = False"
| "starts_with (c # cs) (p # ps) = (c = p \<and> starts_with cs ps)"

fun find_from :: "string \<Rightarrow> string \<Rightarrow> nat \<Rightarrow> nat option" where
  "find_from [] sub i = (if sub = [] then Some i else None)"
| "find_from (c # cs) sub i =
     (if starts_with (c # cs) sub then Some i else find_from cs sub (i + 1))"

definition find_sub :: "string \<Rightarrow> string \<Rightarrow> nat option" where
  "find_sub s sub = find_from s sub 0"

definition contains :: "string \<Rightarrow> string \<Rightarrow> bool" where
  "contains s sub = (find_sub s sub \<noteq> None)"

text \<open>\<^verbatim>\<open>s.split(sep)\<close> for a one-character separator: empty pieces are kept.\<close>

fun split_on :: "char \<Rightarrow> string \<Rightarrow> string list" where
  "split_on sep [] = [[]]"
| "split_on sep (c # cs) =
     (case split_on sep cs of
        [] \<Rightarrow> (if c = sep then [[], []] else [[c]])
      | w # ws \<Rightarrow> (if c = sep then [] # w # ws else (c # w) # ws))"

text \<open>\<^verbatim>\<open>s.split()\<close>: the maximal runs of characters that are not whitespace.\<close>

fun split_ws :: "string \<Rightarrow> string list" where
  "split_ws [] = []"
| "split_ws (c # cs) =
     (if is_space c then split_ws cs
      else (case cs of
              [] \<Rightarrow> [[c]]
            | d # ds \<Rightarrow> (if is_space d then [c] # split_ws cs
                        else (case split_ws cs of
                                [] \<Rightarrow> [[c]]
                              | w # ws \<Rightarrow> (c # w) # ws))))"

text \<open>\<^verbatim>\<open>sep.join(parts)\<close>.\<close>

fun join :: "string \<Rightarrow> string list \<Rightarrow> string" where
  "join sep [] = []"
| "join sep [p] = p"
| "join sep (p # q # ps) = p @ sep @ join sep (q # ps)"

text \<open>\<^verbatim>\<open>str(n)\<close> for an integer, and \<^verbatim>\<open>f"{n:04d}"\<close>: zero padding to a width of four
  that counts the sign.\<close>

definition digit_ch :: "nat \<Rightarrow> char" where
  "digit_ch d = digits ! (d mod 10)"

fun show_nat_aux :: "nat \<Rightarrow> nat \<Rightarrow> string \<Rightarrow> string" where
  "show_nat_aux 0 n acc = acc"
| "show_nat_aux (Suc fuel) n acc =
     (if n < 10 then digit_ch n # acc
      else show_nat_aux fuel (n div 10) (digit_ch n # acc))"

definition show_nat :: "nat \<Rightarrow> string" where
  "show_nat n = show_nat_aux (Suc n) n []"

definition show_int :: "int \<Rightarrow> string" where
  "show_int i = (if i < 0 then CHR ''-'' # show_nat (nat (- i)) else show_nat (nat i))"

definition fmt_04d :: "int \<Rightarrow> string" where
  "fmt_04d i =
     (let ds = show_nat (nat \<bar>i\<bar>);
          sign = (if i < 0 then ''-'' else [])
      in sign @ replicate (4 - length sign - length ds) CHR ''0'' @ ds)"

text \<open>
  \<^verbatim>\<open>int(s)\<close> on ASCII text: surrounding whitespace is stripped, one sign is allowed,
  and the digits may be grouped by single underscores. \<open>None\<close> is \<^verbatim>\<open>ValueError\<close>.
\<close>

definition digit_val :: "char \<Rightarrow> nat" where
  "digit_val c = (case find_sub digits [c] of Some d \<Rightarrow> d | None \<Rightarrow> 0)"

fun digits_ok :: "string \<Rightarrow> bool" where
  "digits_ok [] = False"
| "digits_ok [c] = is_digit c"
| "digits_ok (c # d # cs) =
     (is_digit c \<and> (if d = CHR ''_'' then digits_ok cs else digits_ok (d # cs)))"

definition nat_of_digits :: "string \<Rightarrow> nat" where
  "nat_of_digits ds = foldl (\<lambda>n c. 10 * n + digit_val c) 0 (remove_ch CHR ''_'' ds)"

definition py_int :: "string \<Rightarrow> int option" where
  "py_int s =
     (let t = strip s;
          neg = starts_with t ''-'';
          ds = (if starts_with t ''-'' \<or> starts_with t ''+'' then tl t else t)
      in if digits_ok ds
         then Some (if neg then - int (nat_of_digits ds) else int (nat_of_digits ds))
         else None)"

subsection \<open>Regular expressions\<close>

text \<open>
  The patterns of the program are built from literals, character classes, a repeated
  character class (greedy or lazy, with bounds), sequence, alternation, an optional
  part, one capturing group and the word boundary \<^verbatim>\<open>\b\<close>. \<open>mt\<close> is a backtracking
  matcher with the priorities of Python's \<^verbatim>\<open>re\<close>: the left alternative first, a
  greedy repetition longest first, a lazy one shortest first. The continuation
  receives the character before the position, the rest of the subject and the text of
  group 1, and a match returns the rest after the match and the text of group 1.
\<close>

datatype regex =
    Eps
  | Sym "char \<Rightarrow> bool"
  | Rep "char \<Rightarrow> bool" nat "nat option" bool
  | Seq regex regex
  | Alt regex regex
  | Opt regex
  | Grp regex
  | Bnd

type_synonym mres = "string \<times> string"
type_synonym cont = "char option \<Rightarrow> string \<Rightarrow> string \<Rightarrow> mres option"

definition dec :: "nat option \<Rightarrow> nat option" where
  "dec hi = map_option (\<lambda>h. h - 1) hi"

fun rep_greedy ::
  "(char \<Rightarrow> bool) \<Rightarrow> nat \<Rightarrow> nat option \<Rightarrow> cont \<Rightarrow> char option \<Rightarrow> string \<Rightarrow> string \<Rightarrow> mres option"
where
  "rep_greedy p lo hi k prev [] g = (if lo = 0 then k prev [] g else None)"
| "rep_greedy p lo hi k prev (c # cs) g =
     (if p c \<and> hi \<noteq> Some 0 then
        (case rep_greedy p (lo - 1) (dec hi) k (Some c) cs g of
           Some r \<Rightarrow> Some r
         | None \<Rightarrow> (if lo = 0 then k prev (c # cs) g else None))
      else if lo = 0 then k prev (c # cs) g else None)"

fun rep_lazy ::
  "(char \<Rightarrow> bool) \<Rightarrow> nat \<Rightarrow> nat option \<Rightarrow> cont \<Rightarrow> char option \<Rightarrow> string \<Rightarrow> string \<Rightarrow> mres option"
where
  "rep_lazy p lo hi k prev [] g = (if lo = 0 then k prev [] g else None)"
| "rep_lazy p lo hi k prev (c # cs) g =
     (if lo = 0 then
        (case k prev (c # cs) g of
           Some r \<Rightarrow> Some r
         | None \<Rightarrow> (if p c \<and> hi \<noteq> Some 0 then rep_lazy p 0 (dec hi) k (Some c) cs g
                    else None))
      else if p c \<and> hi \<noteq> Some 0 then rep_lazy p (lo - 1) (dec hi) k (Some c) cs g
      else None)"

text \<open>\<^verbatim>\<open>\b\<close>: exactly one of the two neighbours is a word character.\<close>

definition at_boundary :: "char option \<Rightarrow> string \<Rightarrow> bool" where
  "at_boundary prev rest =
     ((case prev of None \<Rightarrow> False | Some c \<Rightarrow> is_word c)
      \<noteq> (case rest of [] \<Rightarrow> False | c # cs \<Rightarrow> is_word c))"

primrec mt :: "regex \<Rightarrow> cont \<Rightarrow> char option \<Rightarrow> string \<Rightarrow> string \<Rightarrow> mres option" where
  "mt Eps k prev rest g = k prev rest g"
| "mt (Sym p) k prev rest g =
     (case rest of
        [] \<Rightarrow> None
      | c # cs \<Rightarrow> (if p c then k (Some c) cs g else None))"
| "mt (Rep p lo hi greedy) k prev rest g =
     (if greedy then rep_greedy p lo hi k prev rest g else rep_lazy p lo hi k prev rest g)"
| "mt (Seq a b) k prev rest g = mt a (mt b k) prev rest g"
| "mt (Alt a b) k prev rest g =
     (case mt a k prev rest g of
        Some r \<Rightarrow> Some r
      | None \<Rightarrow> mt b k prev rest g)"
| "mt (Opt a) k prev rest g =
     (case mt a k prev rest g of
        Some r \<Rightarrow> Some r
      | None \<Rightarrow> k prev rest g)"
| "mt (Grp a) k prev rest g =
     mt a (\<lambda>prev' rest' g'. k prev' rest' (take (length rest - length rest') rest)) prev rest g"
| "mt Bnd k prev rest g = (if at_boundary prev rest then k prev rest g else None)"

definition match_at :: "regex \<Rightarrow> char option \<Rightarrow> string \<Rightarrow> mres option" where
  "match_at r prev rest = mt r (\<lambda>prev' rest' g. Some (rest', g)) prev rest []"

text \<open>
  \<^verbatim>\<open>re.search\<close>: the match at the leftmost position that has one, as
  (\<^verbatim>\<open>start()\<close>, \<^verbatim>\<open>group(1)\<close>).
\<close>

fun search_from :: "regex \<Rightarrow> char option \<Rightarrow> string \<Rightarrow> nat \<Rightarrow> (nat \<times> string) option" where
  "search_from r prev [] i =
     (case match_at r prev [] of Some (e, g) \<Rightarrow> Some (i, g) | None \<Rightarrow> None)"
| "search_from r prev (c # cs) i =
     (case match_at r prev (c # cs) of
        Some (e, g) \<Rightarrow> Some (i, g)
      | None \<Rightarrow> search_from r (Some c) cs (i + 1))"

definition re_search :: "regex \<Rightarrow> string \<Rightarrow> (nat \<times> string) option" where
  "re_search r text = search_from r None text 0"

text \<open>
  \<^verbatim>\<open>re.finditer\<close> (and \<^verbatim>\<open>re.findall\<close> for a pattern with one group), as the list
  of the \<^verbatim>\<open>group(1)\<close> of the successive matches, which do not overlap: \<open>skip\<close>
  counts the characters of the last match still to pass. No pattern of the program
  matches the empty string.
\<close>

fun finditer_from :: "regex \<Rightarrow> char option \<Rightarrow> string \<Rightarrow> nat \<Rightarrow> string list" where
  "finditer_from r prev [] skip =
     (if skip = 0 then (case match_at r prev [] of Some (e, g) \<Rightarrow> [g] | None \<Rightarrow> [])
      else [])"
| "finditer_from r prev (c # cs) skip =
     (if skip = 0 then
        (case match_at r prev (c # cs) of
           Some (e, g) \<Rightarrow> g # finditer_from r (Some c) cs (length (c # cs) - length e - 1)
         | None \<Rightarrow> finditer_from r (Some c) cs 0)
      else finditer_from r (Some c) cs (skip - 1))"

definition re_finditer :: "regex \<Rightarrow> string \<Rightarrow> string list" where
  "re_finditer r text = finditer_from r None text 0"

text \<open>Pattern pieces. Every pattern but the one on the uppercased text is compiled
  with \<^verbatim>\<open>re.IGNORECASE\<close>, so a literal letter stands for both of its cases.\<close>

definition seqs :: "regex list \<Rightarrow> regex" where
  "seqs rs = foldr Seq rs Eps"

definition alts :: "regex list \<Rightarrow> regex" where
  "alts rs = (case rs of [] \<Rightarrow> Eps | r # rs' \<Rightarrow> foldl Alt r rs')"

definition either_ch :: "char \<Rightarrow> char \<Rightarrow> regex" where
  "either_ch l u = Sym (\<lambda>x. x = l \<or> x = u)"

definition lit :: "string \<Rightarrow> regex" where
  "lit s = seqs (map (\<lambda>c. either_ch (lower_ch c) (upper_ch c)) s)"

definition exact :: "string \<Rightarrow> regex" where
  "exact s = seqs (map (\<lambda>c. Sym (\<lambda>x. x = c)) s)"

definition star :: "(char \<Rightarrow> bool) \<Rightarrow> regex" where
  "star p = Rep p 0 None True"

definition plus :: "(char \<Rightarrow> bool) \<Rightarrow> regex" where
  "plus p = Rep p 1 None True"

definition at_least :: "nat \<Rightarrow> (char \<Rightarrow> bool) \<Rightarrow> regex" where
  "at_least n p = Rep p n None True"

definition ws :: regex where
  "ws = star is_space"

definition ws1 :: regex where
  "ws1 = plus is_space"

text \<open>\<^verbatim>\<open>[A-Z0-9\-]\<close> under IGNORECASE.\<close>

definition is_alnum_dash :: "char \<Rightarrow> bool" where
  "is_alnum_dash c = (is_alpha c \<or> is_digit c \<or> c = CHR ''-'')"

definition is_any :: "char \<Rightarrow> bool" where
  "is_any c = True"

definition is_space_or :: "char \<Rightarrow> char \<Rightarrow> bool" where
  "is_space_or x c = (is_space c \<or> c = x)"

subsection \<open>Floats: \<^verbatim>\<open>float(s)\<close> and \<^verbatim>\<open>f"{x:.2f}"\<close>\<close>

text \<open>
  A non-negative binary64 value is \<open>Finite m p\<close>, standing for \<open>m * 2 ^ p\<close>, or
  \<open>Infinity\<close>. \<open>rdiv a b\<close> is the quotient \<open>a / b\<close> rounded to the nearest integer,
  ties to even. \<open>to_binary64 a b\<close> rounds the fraction \<open>a / b\<close> to the nearest
  binary64 value: 53 significant bits, exponents from -1074, and infinity from
  \<open>2 ^ 1024\<close> on.
\<close>

datatype pyfloat = Finite nat int | Infinity

definition rdiv :: "nat \<Rightarrow> nat \<Rightarrow> nat" where
  "rdiv a b =
     (let q = a div b; r = a mod b
      in if 2 * r < b then q
         else if 2 * r > b then q + 1
         else if even q then q else q + 1)"

text \<open>The exponent \<open>e\<close> with \<open>2 ^ e \<le> a / b < 2 ^ (e + 1)\<close>, for positive \<open>a\<close> and \<open>b\<close>.\<close>

definition ilog2 :: "nat \<Rightarrow> nat \<Rightarrow> int" where
  "ilog2 a b =
     (let d = int (floorlog 2 a) - int (floorlog 2 b)
      in if (if d \<ge> 0 then 2 ^ nat d * b \<le> a else b \<le> 2 ^ nat (- d) * a) then d else d - 1)"

definition to_binary64 :: "nat \<Rightarrow> nat \<Rightarrow> pyfloat" where
  "to_binary64 a b =
     (if a = 0 then Finite 0 0
      else
        let e = ilog2 a b;
            p = max (e - 52) (- 1074);
            m = (if p \<ge> 0 then rdiv a (b * 2 ^ nat p) else rdiv (a * 2 ^ nat (- p)) b)
        in if p \<ge> 0 \<and> m * 2 ^ nat p \<ge> 2 ^ 1024 then Infinity else Finite m p)"

text \<open>
  \<^verbatim>\<open>float(s)\<close> on the strings the cost patterns capture: digits, at most one point,
  at least one digit. \<open>None\<close> is \<^verbatim>\<open>ValueError\<close>.
\<close>

definition py_float :: "string \<Rightarrow> pyfloat option" where
  "py_float s =
     (case split_on CHR ''.'' s of
        [ip] \<Rightarrow>
          (if ip \<noteq> [] \<and> list_all is_digit ip
           then Some (to_binary64 (nat_of_digits ip) 1) else None)
      | [ip, fp] \<Rightarrow>
          (if ip @ fp \<noteq> [] \<and> list_all is_digit (ip @ fp)
           then Some (to_binary64 (nat_of_digits (ip @ fp)) (10 ^ length fp)) else None)
      | _ \<Rightarrow> None)"

text \<open>\<^verbatim>\<open>f"{x:.2f}"\<close>: the value rounded to hundredths, ties to even, or \<^verbatim>\<open>inf\<close>.\<close>

definition fmt_2f :: "pyfloat \<Rightarrow> string" where
  "fmt_2f x =
     (case x of
        Infinity \<Rightarrow> ''inf''
      | Finite m p \<Rightarrow>
          (let n = (if p \<ge> 0 then m * 2 ^ nat p * 100 else rdiv (m * 100) (2 ^ nat (- p)))
           in show_nat (n div 100) @ ''.'' @ [digit_ch (n div 10), digit_ch n]))"

subsection \<open>Step 1 of \<^verbatim>\<open>extract_invoice_data\<close>: the invoice number\<close>

text \<open>The captured group \<^verbatim>\<open>(\d{5,}[A-Z0-9\-]*)\<close> and \<^verbatim>\<open>([A-Z0-9\-]+)\<close>.\<close>

definition grp_inv5 :: regex where
  "grp_inv5 = Grp (Seq (at_least 5 is_digit) (star is_alnum_dash))"

definition grp_id :: regex where
  "grp_id = Grp (plus is_alnum_dash)"

text \<open>
  \<^verbatim>\<open>customer_invoice_patterns\<close>:
  \<^verbatim>\<open>CUSTOMER\s*#\s*INVOICE\s*#[\s\S]*?(\d{5,}[A-Z0-9\-]*)\<close> and
  \<^verbatim>\<open>INVOICE\s*#[\s:]*(\d{5,}[A-Z0-9\-]*)\<close>.
\<close>

definition customer_invoice_patterns :: "regex list" where
  "customer_invoice_patterns =
     [seqs [lit ''CUSTOMER'', ws, lit ''#'', ws, lit ''INVOICE'', ws, lit ''#'',
            Rep is_any 0 None False, grp_inv5],
      seqs [lit ''INVOICE'', ws, lit ''#'', star (is_space_or CHR '':''), grp_inv5]]"

text \<open>
  \<^verbatim>\<open>order_patterns\<close>, in the source's order:
  \<^verbatim>\<open>INVOICE\s*#\s*:?\s*([A-Z0-9\-]+)\<close>,
  \<^verbatim>\<open>INVOICE\s*(?:NO|NUM|NUMBER)\s*[:\s]*([A-Z0-9\-]+)\<close>,
  \<^verbatim>\<open>Invoice\s+No\s*[:\s]*([A-Z0-9\-]+)\<close>,
  \<^verbatim>\<open>Order\s*#\s*:?\s*([A-Z0-9\-]+)\<close>,
  \<^verbatim>\<open>Order\s*(?:NO|NUM|NUMBER)\s*:?\s*([A-Z0-9\-]+)\<close>,
  \<^verbatim>\<open>Sales\s*Order\s*#?\s*:?\s*([A-Z0-9\-]+)\<close>,
  \<^verbatim>\<open>Work\s*Order\s*#?\s*:?\s*([A-Z0-9\-]+)\<close>,
  \<^verbatim>\<open>Reference\s*#?\s*:?\s*([A-Z0-9\-]+)\<close>,
  \<^verbatim>\<open>Ticket\s*#?\s*:?\s*([A-Z0-9\-]+)\<close>,
  \<^verbatim>\<open>Document\s*#?\s*:?\s*([A-Z0-9\-]+)\<close>,
  \<^verbatim>\<open>Receipt\s*#?\s*:?\s*([A-Z0-9\-]+)\<close>,
  \<^verbatim>\<open>Confirmation\s*#?\s*:?\s*([A-Z0-9\-]+)\<close>,
  \<^verbatim>\<open>Transaction\s*(?:ID|#)?\s*[:\s]*([A-Z0-9\-]+)\<close>.
\<close>

definition no_num_number :: regex where
  "no_num_number = alts [lit ''NO'', lit ''NUM'', lit ''NUMBER'']"

text \<open>\<^verbatim>\<open>\s*#?\s*:?\s*\<close> after a label.\<close>

definition hash_colon :: "regex list" where
  "hash_colon = [ws, Opt (lit ''#''), ws, Opt (lit '':''), ws]"

definition order_patterns :: "regex list" where
  "order_patterns =
     [seqs [lit ''INVOICE'', ws, lit ''#'', ws, Opt (lit '':''), ws, grp_id],
      seqs [lit ''INVOICE'', ws, no_num_number, ws, star (is_space_or CHR '':''), grp_id],
      seqs [lit ''Invoice'', ws1, lit ''No'', ws, star (is_space_or CHR '':''), grp_id],
      seqs [lit ''Order'', ws, lit ''#'', ws, Opt (lit '':''), ws, grp_id],
      seqs [lit ''Order'', ws, no_num_number, ws, Opt (lit '':''), ws, grp_id],
      seqs ([lit ''Sales'', ws, lit ''Order''] @ hash_colon @ [grp_id]),
      seqs ([lit ''Work'', ws, lit ''Order''] @ hash_colon @ [grp_id]),
      seqs ([lit ''Reference''] @ hash_colon @ [grp_id]),
      seqs ([lit ''Ticket''] @ hash_colon @ [grp_id]),
      seqs ([lit ''Document''] @ hash_colon @ [grp_id]),
      seqs ([lit ''Receipt''] @ hash_colon @ [grp_id]),
      seqs ([lit ''Confirmation''] @ hash_colon @ [grp_id]),
      seqs [lit ''Transaction'', ws, Opt (Alt (lit ''ID'') (lit ''#'')), ws,
            star (is_space_or CHR '':''), grp_id]]"

text \<open>
  The loop over a pattern list: \<^verbatim>\<open>re.search\<close>, then \<^verbatim>\<open>group(1).strip()\<close>, then
  the acceptance test; the first accepted candidate ends the loop.
\<close>

fun first_accepted :: "(string \<Rightarrow> bool) \<Rightarrow> regex list \<Rightarrow> string \<Rightarrow> string option" where
  "first_accepted ok [] text = None"
| "first_accepted ok (pattern # ps) text =
     (case re_search pattern text of
        Some (start, g) \<Rightarrow>
          (let candidate = strip g
           in if ok candidate then Some candidate else first_accepted ok ps text)
      | None \<Rightarrow> first_accepted ok ps text)"

definition primary_ok :: "string \<Rightarrow> bool" where
  "primary_ok candidate = (length candidate \<ge> 5)"

definition fallback_ok :: "string \<Rightarrow> bool" where
  "fallback_ok candidate =
     (lower candidate \<notin> set [''date'', ''time'', ''page''] \<and> length candidate \<ge> 5)"

definition find_invoice_number :: "string \<Rightarrow> string option" where
  "find_invoice_number text =
     (case first_accepted primary_ok customer_invoice_patterns text of
        Some invoice_number \<Rightarrow> Some invoice_number
      | None \<Rightarrow> first_accepted fallback_ok order_patterns text)"

subsection \<open>Step 3 of \<^verbatim>\<open>extract_invoice_data\<close>: the total cost\<close>

text \<open>
  \<^verbatim>\<open>cost_patterns\<close>:
  \<^verbatim>\<open>TOTAL[:\s]*\$?\s*([0-9,]+\.\d{2})\<close>,
  \<^verbatim>\<open>Amount\s+Due[:\s]*\$?\s*([0-9,]+\.\d{2})\<close>,
  \<^verbatim>\<open>Grand\s+Total[:\s]*\$?\s*([0-9,]+\.\d{2})\<close>.
\<close>

definition is_digit_comma :: "char \<Rightarrow> bool" where
  "is_digit_comma c = (is_digit c \<or> c = CHR '','')"

definition amount_tail :: "regex list" where
  "amount_tail =
     [star (is_space_or CHR '':''), Opt (lit ''$''), ws,
      Grp (seqs [plus is_digit_comma, lit ''.'', Rep is_digit 2 (Some 2) True])]"

definition cost_patterns :: "regex list" where
  "cost_patterns =
     [seqs ([lit ''TOTAL''] @ amount_tail),
      seqs ([lit ''Amount'', ws1, lit ''Due''] @ amount_tail),
      seqs ([lit ''Grand'', ws1, lit ''Total''] @ amount_tail)]"

text \<open>
  The loop over \<^verbatim>\<open>cost_patterns\<close>: the last match of the first pattern that has
  one, without its commas, converted and printed; a \<^verbatim>\<open>ValueError\<close> passes to the
  next pattern with the cost unchanged.
\<close>

fun cost_loop :: "regex list \<Rightarrow> string \<Rightarrow> string \<Rightarrow> string" where
  "cost_loop [] text cost = cost"
| "cost_loop (pattern # ps) text cost =
     (let matches = re_finditer pattern text
      in if matches \<noteq> [] then
           (let cost_str = remove_ch CHR '','' (last matches)
            in case py_float cost_str of
                 Some x \<Rightarrow> fmt_2f x
               | None \<Rightarrow> cost_loop ps text cost)
         else cost_loop ps text cost)"

definition find_total_cost :: "string \<Rightarrow> string" where
  "find_total_cost text = cost_loop cost_patterns text ''0.00''"

text \<open>
  A reference edit distance, by recursion on both strings: the least number of
  insertions, deletions and substitutions. \<open>ed_row a b cs\<close> lists the distances from
  \<open>a\<close> to \<open>b\<close> extended by the characters of \<open>cs\<close> one at a time, as a row of the
  table of \<^verbatim>\<open>levenshtein_distance\<close> does.
\<close>

fun edr :: "'a list \<Rightarrow> 'a list \<Rightarrow> nat" where
  "edr [] ys = length ys"
| "edr (x # xs) [] = length (x # xs)"
| "edr (x # xs) (y # ys) =
     min (min (edr xs (y # ys) + 1) (edr (x # xs) ys + 1))
         (edr xs ys + (if x \<noteq> y then 1 else 0))"

fun ed_row :: "'a list \<Rightarrow> 'a list \<Rightarrow> 'a list \<Rightarrow> nat list" where
  "ed_row a b [] = [edr a b]"
| "ed_row a b (c # cs) = edr a b # ed_row a (c # b) cs"

subsection \<open>The eligible POs and the environment\<close>

text \<open>
  \<^verbatim>\<open>po_map\<close> is the dictionary \<^verbatim>\<open>process_bulk_pdf\<close> builds from the approved PO
  requests without an invoice: an association list in insertion order, whose keys are
  the primary keys of the rows. The job name is a string.
\<close>

record po_info =
  po_key :: int
  tech_name :: string
  job_name :: string
  estimated_cost :: rat

type_synonym po_map = "(int \<times> po_info) list"

text \<open>\<^verbatim>\<open>k in po_map\<close>.\<close>

definition in_po_map :: "int \<Rightarrow> po_map \<Rightarrow> bool" where
  "in_po_map k m = (k \<in> set (map fst m))"

text \<open>
  What the program reads from outside: whether the assist service is configured and
  switched on (\<^verbatim>\<open>is_claude_matching_enabled\<close>), the active job names
  (\<^verbatim>\<open>get_active_job_names\<close>), the reply of the service to a prompt, given by the
  three texts the prompt is built from (the job list, the PO list and the excerpt of the
  page), and the result of \<^verbatim>\<open>re.search\<close> for an interpolated pattern that carries
  characters special to \<^verbatim>\<open>re\<close> (\<open>None\<close> when \<^verbatim>\<open>re.error\<close> is raised). The rows the
  program writes to the usage log on each path are not part of the model.
\<close>

datatype api_result = ApiFailure | ApiReply string nat nat

record env =
  claude_enabled :: bool
  active_job_names :: "string list"
  claude_api :: "string \<Rightarrow> string \<Rightarrow> string \<Rightarrow> api_result"
  re_interp :: "string \<Rightarrow> string \<Rightarrow> bool option"

datatype py_error = ReError | IndexError

text \<open>The variables \<^verbatim>\<open>po_number\<close> and \<^verbatim>\<open>match_method\<close> of
  \<^verbatim>\<open>extract_invoice_data\<close>, and the truth value of \<^verbatim>\<open>po_number\<close> in a condition:
  \<^verbatim>\<open>None\<close> and 0 are false.\<close>

type_synonym chain_state = "int option \<times> string option"

definition truthy :: "int option \<Rightarrow> bool" where
  "truthy po = (case po of None \<Rightarrow> False | Some n \<Rightarrow> n \<noteq> 0)"

subsection \<open>\<^verbatim>\<open>find_job_name_in_text\<close>\<close>

definition replace_ch :: "char \<Rightarrow> char \<Rightarrow> string \<Rightarrow> string" where
  "replace_ch a b s = map (\<lambda>c. if c = a then b else c) s"

text \<open>\<^verbatim>\<open>s.replace(' ', '').replace('-', '').replace('_', '')\<close>.\<close>

definition no_separators :: "string \<Rightarrow> string" where
  "no_separators s = remove_ch CHR ''_'' (remove_ch CHR ''-'' (remove_ch CHR '' '' s))"

text \<open>The best window so far: \<^verbatim>\<open>best_score\<close>, \<^verbatim>\<open>best_pos\<close>, \<^verbatim>\<open>best_match\<close>.\<close>

type_synonym best = "rat \<times> int \<times> string option"

definition find_pos :: "string \<Rightarrow> string \<Rightarrow> int" where
  "find_pos s sub = (case find_sub s sub of Some p \<Rightarrow> int p | None \<Rightarrow> - 1)"

definition window_step ::
  "string \<Rightarrow> string list \<Rightarrow> string \<Rightarrow> rat \<Rightarrow> nat \<Rightarrow> best \<Rightarrow> nat \<Rightarrow> best"
where
  "window_step text_upper words job_no_spaces threshold window_size b i =
     (let window_words = take window_size (drop i words);
          window_text = concat window_words;
          job_len = length job_no_spaces
      in if \<bar>rat_of_nat (length window_text) - rat_of_nat job_len\<bar>
              > max 3 (rat_of_nat job_len * (3 / 10))
         then b
         else
           let score = fuzzy_match_score window_text job_no_spaces
           in if score > fst b \<and> score \<ge> threshold
              then (score,
                    (case window_words of [] \<Rightarrow> 0 | w # ws' \<Rightarrow> find_pos text_upper w),
                    Some (join '' '' window_words))
              else b)"

definition sliding_windows :: "string \<Rightarrow> string list \<Rightarrow> string \<Rightarrow> rat \<Rightarrow> best" where
  "sliding_windows text_upper words job_no_spaces threshold =
     foldl (\<lambda>b window_size.
              foldl (window_step text_upper words job_no_spaces threshold window_size) b
                    [0..<length words - window_size + 1])
           (0, - 1, None)
           [1..<min 5 (length words + 1)]"

text \<open>The result is \<^verbatim>\<open>(found, position, matched_text, score)\<close>.\<close>

definition find_job_name_in_text ::
  "string \<Rightarrow> string \<Rightarrow> rat \<Rightarrow> bool \<times> int \<times> string option \<times> rat"
where
  "find_job_name_in_text text job threshold =
     (if text = [] \<or> job = [] then (False, - 1, None, 0)
      else
        let text_upper = upper text;
            job_upper = strip (upper job);
            job_no_spaces = no_separators job_upper;
            job_normalized = normalize_text_for_matching job
        in if contains (normalize_text_for_matching text) job_normalized then
             (let pos = find_pos text_upper job_upper;
                  pos' = (if pos = - 1
                          then find_pos (remove_ch CHR '' '' text_upper) job_no_spaces
                          else pos)
              in (True, (if pos' \<ge> 0 then pos' else 0), Some job_normalized, 1))
           else
             let text_no_spaces = remove_ch CHR '' '' text_upper
             in if contains text_no_spaces job_no_spaces then
                  (True, find_pos text_no_spaces job_no_spaces, Some job_no_spaces, 98 / 100)
                else
                  let b = sliding_windows text_upper (split_ws text_upper) job_no_spaces threshold
                  in if fst b \<ge> threshold then (True, fst (snd b), snd (snd b), fst b)
                     else (False, - 1, None, fst b))"

subsection \<open>The AI-assist strategy: \<^verbatim>\<open>match_invoice_with_claude\<close>\<close>

text \<open>\<^verbatim>\<open>key, value = line.split(':', 1)\<close> for a line that has a colon.\<close>

definition split_colon :: "string \<Rightarrow> string \<times> string" where
  "split_colon line =
     (takeWhile (\<lambda>c. c \<noteq> CHR '':'') line, tl (dropWhile (\<lambda>c. c \<noteq> CHR '':'') line))"

text \<open>The dictionary \<^verbatim>\<open>result\<close> parsed from the reply; a later line overrides an
  earlier one with the same key.\<close>

definition parse_reply :: "string \<Rightarrow> (string \<rightharpoonup> string)" where
  "parse_reply response_text =
     foldl (\<lambda>result line.
              if CHR '':'' \<in> set line
              then (case split_colon line of
                      (key, val) \<Rightarrow> result(upper (strip key) \<mapsto> strip val))
              else result)
           Map.empty
           (split_on CHR 0x0A (strip response_text))"

text \<open>\<^verbatim>\<open>d.get(key, default)\<close>.\<close>

definition get_or :: "(string \<rightharpoonup> string) \<Rightarrow> string \<Rightarrow> string \<Rightarrow> string" where
  "get_or d key dflt = (case d key of Some v \<Rightarrow> v | None \<Rightarrow> dflt)"

text \<open>\<^verbatim>\<open>{'high': 0.95, 'medium': 0.80, 'low': 0.60}.get(confidence.lower(), 0.5)\<close>.\<close>

definition confidence_score :: "string \<Rightarrow> rat" where
  "confidence_score confidence =
     (let c = lower confidence
      in if c = ''high'' then 95 / 100
         else if c = ''medium'' then 80 / 100
         else if c = ''low'' then 60 / 100
         else 5 / 10)"

definition po_context_line :: "int \<times> po_info \<Rightarrow> string" where
  "po_context_line e =
     ''PO #'' @ show_int (fst e) @ '': Job '' @ [CHR 0x27] @ job_name (snd e) @ [CHR 0x27]"

text \<open>
  The result is \<^verbatim>\<open>(po_number, job_name, confidence)\<close>, with \<^verbatim>\<open>(None, None, 0)\<close> on
  every path that does not match; a failure of the call or of the parsing is caught by
  the function and gives the same.
\<close>

definition match_invoice_with_claude ::
  "env \<Rightarrow> string \<Rightarrow> string list \<Rightarrow> po_map \<Rightarrow> int option \<times> string option \<times> rat"
where
  "match_invoice_with_claude e invoice_text active_jobs pm =
     (if \<not> claude_enabled e then (None, None, 0)
      else if active_jobs = [] \<or> pm = [] then (None, None, 0)
      else
        let po_context = join [CHR 0x0A] (map po_context_line pm);
            jobs_list = join '', '' active_jobs;
            invoice_excerpt = take 3000 invoice_text
        in case claude_api e jobs_list po_context invoice_excerpt of
             ApiFailure \<Rightarrow> (None, None, 0)
           | ApiReply response_text input_tokens output_tokens \<Rightarrow>
               (let result = parse_reply response_text;
                    matched = (lower (get_or result ''MATCHED'' ''no'') = ''yes'');
                    job = get_or result ''JOB_NAME'' ''none'';
                    po_number_str = get_or result ''PO_NUMBER'' ''none'';
                    confidence = get_or result ''CONFIDENCE'' ''low''
                in if \<not> matched \<or> lower job = ''none'' \<or> lower po_number_str = ''none''
                   then (None, None, 0)
                   else (case py_int po_number_str of
                           None \<Rightarrow> (None, None, 0)
                         | Some po_number \<Rightarrow>
                             (if \<not> in_po_map po_number pm then (None, None, 0)
                              else (Some po_number, Some job, confidence_score confidence)))))"

text \<open>The primary method of step 2: the suggestion is taken when it is true as a
  condition and its confidence is at least 0.6
  (\<^verbatim>\<open>if claude_po and confidence >= 0.6\<close>).\<close>

definition claude_accepts :: "int option \<Rightarrow> rat \<Rightarrow> bool" where
  "claude_accepts claude_po confidence = (truthy claude_po \<and> confidence \<ge> 6 / 10)"

definition claude_step :: "env \<Rightarrow> string \<Rightarrow> po_map \<Rightarrow> chain_state" where
  "claude_step e text pm =
     (if pm \<noteq> [] \<and> claude_enabled e then
        (case match_invoice_with_claude e text (active_job_names e) pm of
           (claude_po, claude_job, confidence) \<Rightarrow>
             (if claude_accepts claude_po confidence
              then (claude_po, Some ''Claude AI'')
              else (None, None)))
      else (None, None))"

subsection \<open>The fallback methods of step 2\<close>

text \<open>The captured group \<^verbatim>\<open>(\d{4,})\<close>.\<close>

definition grp_d4 :: regex where
  "grp_d4 = Grp (at_least 4 is_digit)"

text \<open>
  The body of the loops \<^verbatim>\<open>for match in matches\<close> of the table column and pattern
  methods, over the \<^verbatim>\<open>group(1)\<close> of the matches: the first number that is a key of
  \<^verbatim>\<open>po_map\<close> is stored with the method's name and ends the loop; a
  \<^verbatim>\<open>ValueError\<close> of \<^verbatim>\<open>int\<close> passes to the next match.
\<close>

fun try_candidates :: "po_map \<Rightarrow> string \<Rightarrow> string list \<Rightarrow> chain_state \<Rightarrow> chain_state" where
  "try_candidates pm method [] st = st"
| "try_candidates pm method (num_str # ms) st =
     (case py_int num_str of
        None \<Rightarrow> try_candidates pm method ms st
      | Some candidate \<Rightarrow>
          (if in_po_map candidate pm then (Some candidate, Some method)
           else try_candidates pm method ms st))"

text \<open>
  \<^verbatim>\<open>header_patterns\<close>, of which only \<^verbatim>\<open>start()\<close> is read:
  \<^verbatim>\<open>(ORDER\s*#\s*)(PO\s*#)\<close>, \<^verbatim>\<open>(Purchase\s+Order[/\s]*Job\s+Name)\<close>,
  \<^verbatim>\<open>(PO\s*Number)\<close>, \<^verbatim>\<open>(PO\s*#)\<close>, \<^verbatim>\<open>(Customer\s*PO)\<close>, \<^verbatim>\<open>(Job\s*#)\<close>,
  \<^verbatim>\<open>(Job\s*Name)\<close>, \<^verbatim>\<open>(Job\s*Number)\<close>, \<^verbatim>\<open>(Work\s*Order)\<close>, \<^verbatim>\<open>(Project\s*#)\<close>,
  \<^verbatim>\<open>(Reference)\<close>.
\<close>

definition header_patterns :: "regex list" where
  "header_patterns =
     [seqs [lit ''ORDER'', ws, lit ''#'', ws, lit ''PO'', ws, lit ''#''],
      seqs [lit ''Purchase'', ws1, lit ''Order'', star (is_space_or CHR ''/''), lit ''Job'', ws1,
            lit ''Name''],
      seqs [lit ''PO'', ws, lit ''Number''],
      seqs [lit ''PO'', ws, lit ''#''],
      seqs [lit ''Customer'', ws, lit ''PO''],
      seqs [lit ''Job'', ws, lit ''#''],
      seqs [lit ''Job'', ws, lit ''Name''],
      seqs [lit ''Job'', ws, lit ''Number''],
      seqs [lit ''Work'', ws, lit ''Order''],
      seqs [lit ''Project'', ws, lit ''#''],
      lit ''Reference'']"

text \<open>
  \<^verbatim>\<open>number_patterns\<close>: \<^verbatim>\<open>S-(\d{4,})\<close>, \<^verbatim>\<open>\b(\d{4,})[A-Za-z]+\<close>,
  \<^verbatim>\<open>:\s*(\d{4,})\s+[A-Za-z]\<close>, \<^verbatim>\<open>\b(\d{4,})\s+[A-Za-z]{3,}\<close>, \<^verbatim>\<open>\b(\d{4,})\b\<close>.
\<close>

definition number_patterns :: "regex list" where
  "number_patterns =
     [seqs [lit ''S-'', grp_d4],
      seqs [Bnd, grp_d4, plus is_alpha],
      seqs [lit '':'', ws, grp_d4, ws1, Sym is_alpha],
      seqs [Bnd, grp_d4, ws1, at_least 3 is_alpha],
      seqs [Bnd, grp_d4, Bnd]]"

text \<open>The loops of the table column method, each left as soon as \<^verbatim>\<open>po_number\<close> is
  true at the head of an iteration.\<close>

fun number_loop :: "po_map \<Rightarrow> string \<Rightarrow> regex list \<Rightarrow> chain_state \<Rightarrow> chain_state" where
  "number_loop pm values_line [] st = st"
| "number_loop pm values_line (pattern # ps) st =
     (if truthy (fst st) then st
      else number_loop pm values_line ps
             (try_candidates pm ''Table Column'' (re_finditer pattern values_line) st))"

fun lines_loop :: "po_map \<Rightarrow> string list \<Rightarrow> chain_state \<Rightarrow> chain_state" where
  "lines_loop pm [] st = st"
| "lines_loop pm (values_line # ls) st =
     (if truthy (fst st) then st
      else lines_loop pm ls (number_loop pm values_line number_patterns st))"

fun header_loop :: "po_map \<Rightarrow> string \<Rightarrow> regex list \<Rightarrow> chain_state \<Rightarrow> chain_state" where
  "header_loop pm text [] st = st"
| "header_loop pm text (header_pattern # hs) st =
     (if truthy (fst st) then st
      else
        (case re_search header_pattern text of
           Some (po_column_start, g) \<Rightarrow>
             (let text_after = drop po_column_start text;
                  lines = split_on CHR 0x0A text_after;
                  lines_to_check = take 2 lines
              in header_loop pm text hs (lines_loop pm lines_to_check st))
         | None \<Rightarrow> header_loop pm text hs st))"

text \<open>
  \<^verbatim>\<open>po_patterns\<close>, in the source's order:
  \<^verbatim>\<open>PO\s*#?\s*[:\s]*S-(\d{4,})\<close>,
  \<^verbatim>\<open>PO\s*#?\s*[:\s]*(\d{4,})[A-Za-z]+\<close>,
  \<^verbatim>\<open>PO\s*#?\s*[:\s]*(\d{4,})\s+[A-Za-z]\<close>,
  \<^verbatim>\<open>PO\s*#?\s*[:\s]*(\d{4,})\<close>,
  \<^verbatim>\<open>Customer\s*PO\s*#?\s*[:\s]*(\d{4,})\<close>,
  \<^verbatim>\<open>Job\s*#\s*[:\s]*(\d{4,})\<close>,
  \<^verbatim>\<open>Job\s*(?:Name|Number)\s*[:\s]*(\d{4,})\<close>,
  \<^verbatim>\<open>Project\s*#?\s*[:\s]*(\d{4,})\<close>,
  \<^verbatim>\<open>Work\s*Order\s*#?\s*[:\s]*(\d{4,})\<close>,
  \<^verbatim>\<open>Purchase\s+Order[/\s]+Job\s+Name[\s\S]*?(\d{4,})[A-Za-z]+\<close>,
  \<^verbatim>\<open>PO\s*Number[:\s]+(\d{4,})\s+[A-Za-z]\<close>,
  \<^verbatim>\<open>PO\s*Number[:\s]+(\d{4,})\<close>,
  \<^verbatim>\<open>\b(\d{4,})[A-Za-z]{3,}\<close>,
  \<^verbatim>\<open>\b(\d{4,})\s+(?:SOMERVILLE|HERONS?\s*GLEN|SERVICE)\<close>.
\<close>

text \<open>\<^verbatim>\<open>\s*#?\s*[:\s]*\<close> after a label.\<close>

definition hash_sep :: "regex list" where
  "hash_sep = [ws, Opt (lit ''#''), ws, star (is_space_or CHR '':'')]"

definition po_patterns :: "regex list" where
  "po_patterns =
     [seqs ([lit ''PO''] @ hash_sep @ [lit ''S-'', grp_d4]),
      seqs ([lit ''PO''] @ hash_sep @ [grp_d4, plus is_alpha]),
      seqs ([lit ''PO''] @ hash_sep @ [grp_d4, ws1, Sym is_alpha]),
      seqs ([lit ''PO''] @ hash_sep @ [grp_d4]),
      seqs ([lit ''Customer'', ws, lit ''PO''] @ hash_sep @ [grp_d4]),
      seqs [lit ''Job'', ws, lit ''#'', ws, star (is_space_or CHR '':''), grp_d4],
      seqs [lit ''Job'', ws, Alt (lit ''Name'') (lit ''Number''), ws,
            star (is_space_or CHR '':''), grp_d4],
      seqs ([lit ''Project''] @ hash_sep @ [grp_d4]),
      seqs ([lit ''Work'', ws, lit ''Order''] @ hash_sep @ [grp_d4]),
      seqs [lit ''Purchase'', ws1, lit ''Order'', plus (is_space_or CHR ''/''), lit ''Job'', ws1,
            lit ''Name'', Rep is_any 0 None False, grp_d4, plus is_alpha],
      seqs [lit ''PO'', ws, lit ''Number'', plus (is_space_or CHR '':''), grp_d4, ws1,
            Sym is_alpha],
      seqs [lit ''PO'', ws, lit ''Number'', plus (is_space_or CHR '':''), grp_d4],
      seqs [Bnd, grp_d4, at_least 3 is_alpha],
      seqs [Bnd, grp_d4, ws1,
            alts [lit ''SOMERVILLE'',
                  seqs [lit ''HERON'', Opt (lit ''S''), ws, lit ''GLEN''],
                  lit ''SERVICE'']]]"

text \<open>Method 2: the loop over \<^verbatim>\<open>po_patterns\<close>, left after the first pattern that
  makes \<^verbatim>\<open>po_number\<close> true.\<close>

fun pattern_loop :: "po_map \<Rightarrow> string \<Rightarrow> regex list \<Rightarrow> chain_state \<Rightarrow> chain_state" where
  "pattern_loop pm text [] st = st"
| "pattern_loop pm text (pattern # ps) st =
     (let st' = try_candidates pm ''Pattern Match'' (re_finditer pattern text) st
      in if truthy (fst st') then st' else pattern_loop pm text ps st')"

text \<open>
  Method 3. \<^verbatim>\<open>concat_pattern\<close> is \<^verbatim>\<open>rf'{po_str}\s*{job_name_no_spaces}'\<close>, searched
  in the uppercased text without IGNORECASE. The job name goes into the pattern as it
  is: when it has none of the characters special to \<^verbatim>\<open>re\<close> it stands for itself, and
  otherwise the result is the environment's.
\<close>

definition re_special :: string where
  "re_special = [CHR ''.'', CHR ''^'', CHR ''$'', CHR ''*'', CHR ''+'', CHR ''?'', CHR ''{'',
                 CHR ''}'', CHR ''['', CHR '']'', CHR 0x5C, CHR ''|'', CHR ''('', CHR '')'']"

definition search_concat :: "env \<Rightarrow> string \<Rightarrow> string \<Rightarrow> string \<Rightarrow> bool option" where
  "search_concat e po_str job_name_no_spaces text_upper =
     (if list_all (\<lambda>c. c \<notin> set re_special) job_name_no_spaces
      then Some (re_search (seqs [exact po_str, ws, exact job_name_no_spaces]) text_upper \<noteq> None)
      else re_interp e (po_str @ [CHR 0x5C] @ ''s*'' @ job_name_no_spaces) text_upper)"

text \<open>\<^verbatim>\<open>po_context_pattern\<close>:
  \<^verbatim>\<open>rf'(?:PO|Purchase\s*Order|Order|Job)[^0-9]*{po_str}'\<close>, with IGNORECASE.\<close>

definition po_context_pattern :: "string \<Rightarrow> regex" where
  "po_context_pattern po_str =
     seqs [alts [lit ''PO'', seqs [lit ''Purchase'', ws, lit ''Order''], lit ''Order'', lit ''Job''],
           star (\<lambda>c. \<not> is_digit c),
           lit po_str]"

fun direct_loop ::
  "env \<Rightarrow> string \<Rightarrow> (int \<times> po_info) list \<Rightarrow> chain_state \<Rightarrow> py_error + chain_state"
where
  "direct_loop e text [] st = Inr st"
| "direct_loop e text ((po_id, info) # items) st =
     (let text_upper = upper text;
          po_str = show_int po_id;
          job = upper (job_name info);
          job_name_no_spaces = no_separators job
      in if contains text po_str then
           (case search_concat e po_str job_name_no_spaces text_upper of
              None \<Rightarrow> Inl ReError
            | Some True \<Rightarrow> Inr (Some po_id, Some ''Direct Search'')
            | Some False \<Rightarrow>
                (let job_parts = split_ws (replace_ch CHR ''_'' CHR '' ''
                                             (replace_ch CHR ''-'' CHR '' '' job));
                     job_found = list_ex (\<lambda>part. length part \<ge> 3 \<and> contains text_upper part)
                                         job_parts
                 in if job_found then Inr (Some po_id, Some ''Direct Search'')
                    else if re_search (po_context_pattern po_str) text \<noteq> None
                    then Inr (Some po_id, Some ''Direct Search'')
                    else direct_loop e text items st))
         else direct_loop e text items st)"

text \<open>
  Method 4. \<^verbatim>\<open>text[search_start:search_end]\<close> for bounds that are not negative, and
  the numbers \<^verbatim>\<open>re.findall(r'\b(\d{3,5})\b', context)\<close> near the job name: the first
  that is a key of \<^verbatim>\<open>po_map\<close> whose own job name scores at least 0.75 against the
  job name found.
\<close>

definition slice :: "string \<Rightarrow> int \<Rightarrow> int \<Rightarrow> string" where
  "slice s a b = take (nat b - nat a) (drop (nat a) s)"

definition job_of :: "po_map \<Rightarrow> int \<Rightarrow> string" where
  "job_of pm k = (case map_of pm k of Some info \<Rightarrow> job_name info | None \<Rightarrow> [])"

fun near_candidates :: "po_map \<Rightarrow> string \<Rightarrow> string list \<Rightarrow> chain_state \<Rightarrow> chain_state" where
  "near_candidates pm job [] st = st"
| "near_candidates pm job (num_str # ns) st =
     (case py_int num_str of
        None \<Rightarrow> near_candidates pm job ns st
      | Some candidate \<Rightarrow>
          (if in_po_map candidate pm then
             (let po_job = upper (job_of pm candidate);
                  job_match_score = fuzzy_match_score po_job job
              in if job_match_score \<ge> 75 / 100 then (Some candidate, Some ''Fuzzy Match'')
                 else near_candidates pm job ns st)
           else near_candidates pm job ns st))"

fun fuzzy_loop :: "string \<Rightarrow> po_map \<Rightarrow> string list \<Rightarrow> chain_state \<Rightarrow> chain_state" where
  "fuzzy_loop text pm [] st = st"
| "fuzzy_loop text pm (job # jobs) st =
     (if truthy (fst st) then st
      else
        (case find_job_name_in_text text job (75 / 100) of
           (found, pos, matched_text, score) \<Rightarrow>
             (if found then
                (let search_start = max 0 (pos - 100);
                     search_end = min (int (length text)) (pos + int (length job) + 100);
                     context = slice text search_start search_end;
                     number_matches =
                       re_finditer (seqs [Bnd, Grp (Rep is_digit 3 (Some 5) True), Bnd]) context
                 in fuzzy_loop text pm jobs (near_candidates pm job number_matches st))
              else fuzzy_loop text pm jobs st)))"

text \<open>Method 4b: for a job name found at threshold 0.70, the POs of that job
  (\<^verbatim>\<open>matching_pos\<close>), and the first of them whose number occurs in the text.\<close>

fun first_in_text :: "string \<Rightarrow> int list \<Rightarrow> chain_state \<Rightarrow> chain_state" where
  "first_in_text text [] st = st"
| "first_in_text text (po_id # ids) st =
     (if contains text (show_int po_id) then (Some po_id, Some ''Fuzzy Match'')
      else first_in_text text ids st)"

fun broad_loop :: "string \<Rightarrow> po_map \<Rightarrow> string list \<Rightarrow> chain_state \<Rightarrow> chain_state" where
  "broad_loop text pm [] st = st"
| "broad_loop text pm (job # jobs) st =
     (if truthy (fst st) then st
      else
        (case find_job_name_in_text text job (70 / 100) of
           (found, pos, matched_text, score) \<Rightarrow>
             (if found then
                (let matching_pos =
                       map fst (filter (\<lambda>item. fuzzy_match_score (job_name (snd item)) job
                                                 \<ge> 75 / 100) pm)
                 in broad_loop text pm jobs (first_in_text text matching_pos st))
              else broad_loop text pm jobs st)))"

definition fuzzy_scan :: "env \<Rightarrow> string \<Rightarrow> po_map \<Rightarrow> chain_state \<Rightarrow> chain_state" where
  "fuzzy_scan e text pm st =
     (let active_jobs = active_job_names e;
          st' = fuzzy_loop text pm active_jobs st
      in if \<not> truthy (fst st') then broad_loop text pm active_jobs st' else st')"

subsection \<open>\<^verbatim>\<open>extract_invoice_data\<close>\<close>

text \<open>
  The result: \<^verbatim>\<open>None\<close> (\<open>NoInvoice\<close>), the dictionary with \<^verbatim>\<open>'error': True\<close>
  (\<open>NoPO invoice_number cost message\<close>), or the dictionary of a match.
\<close>

record invoice_data =
  po_id :: int
  invoice_number :: string
  cost :: string
  match_method :: "string option"

datatype outcome = NoInvoice | NoPO string string string | Matched invoice_data

text \<open>Step 2: the five methods in the source's order, each fallback guarded as the
  source guards it.\<close>

definition find_po_number :: "env \<Rightarrow> string \<Rightarrow> po_map \<Rightarrow> py_error + chain_state" where
  "find_po_number e text pm =
     (let st1 = claude_step e text pm;
          st2 = header_loop pm text header_patterns st1;
          st3 = (if \<not> truthy (fst st2) then pattern_loop pm text po_patterns st2 else st2)
      in case (if \<not> truthy (fst st3) \<and> pm \<noteq> [] then direct_loop e text pm st3 else Inr st3) of
           Inl err \<Rightarrow> Inl err
         | Inr st4 \<Rightarrow>
             Inr (if \<not> truthy (fst st4) \<and> pm \<noteq> [] then fuzzy_scan e text pm st4 else st4))"

definition extract_invoice_data :: "env \<Rightarrow> string \<Rightarrow> po_map \<Rightarrow> py_error + outcome" where
  "extract_invoice_data e text pm =
     (if text = [] then Inr NoInvoice
      else
        (case find_invoice_number text of
           None \<Rightarrow> Inr NoInvoice
         | Some inv_num \<Rightarrow>
             (case find_po_number e text pm of
                Inl err \<Rightarrow> Inl err
              | Inr (po_number, method) \<Rightarrow>
                  (let c = find_total_cost text
                   in if \<not> truthy po_number
                      then Inr (NoPO inv_num c
                                  (''Invoice '' @ inv_num @ '' - PO already has invoice or not approved''))
                      else (case po_number of
                              None \<Rightarrow> Inr (NoPO inv_num c [])
                            | Some n \<Rightarrow>
                                Inr (Matched \<lparr>po_id = n, invoice_number = inv_num, cost = c,
                                               match_method = method\<rparr>))))))"

subsection \<open>\<^verbatim>\<open>format_po_number\<close>\<close>

text \<open>\<^verbatim>\<open>f"S{po_id:04d}"\<close> when the job name is not empty and is \<^verbatim>\<open>service\<close> in lower
  case, \<^verbatim>\<open>f"{po_id:04d}"\<close> otherwise.\<close>

definition format_po_number :: "int \<Rightarrow> string \<Rightarrow> string" where
  "format_po_number n job =
     (if job \<noteq> [] \<and> lower job = ''service'' then ''S'' @ fmt_04d n else fmt_04d n)"

subsection \<open>\<^verbatim>\<open>process_bulk_pdf\<close>\<close>

text \<open>
  The run takes the text of each page, in document order (what \<^verbatim>\<open>extract_text\<close>, or
  the recognition that replaces an empty text, returned), the timestamp, and the
  eligible POs read at the start. Its state is the dictionary \<^verbatim>\<open>results\<close>, the
  dictionary \<^verbatim>\<open>invoice_groups\<close> in insertion order, the documents written (file name
  and page indices, from 0) and the rows updated in the store. The message, the error
  text and the trace of \<^verbatim>\<open>results\<close> are left out.
\<close>

record error_rec =
  err_page :: nat
  err_invoice_number :: string
  err_cost :: string
  err_error :: string
  err_message :: string
  err_text_preview :: string

record unmatched_rec =
  un_page :: nat
  un_text_preview :: string
  un_filename :: string

record detail_rec =
  det_page :: string
  det_po_number :: int
  det_job_name :: string
  det_estimated_cost :: rat
  det_invoice_number :: string
  det_cost :: string
  det_status :: string
  det_pages :: nat

record results =
  success :: bool
  processed :: nat
  matched :: nat
  unmatched :: "unmatched_rec list"
  errors :: "error_rec list"
  details :: "detail_rec list"

record page_group =
  pages :: "nat list"
  texts :: "string list"
  data :: invoice_data

record db_update =
  upd_filename :: string
  upd_invoice_number :: string
  upd_invoice_cost :: string
  upd_match_method :: "string option"
  upd_po_id :: int

type_synonym groups = "(string \<times> page_group) list"

record run_state =
  res :: results
  invoice_groups :: groups
  files :: "(string \<times> nat list) list"
  updates :: "db_update list"

definition init_state :: run_state where
  "init_state =
     \<lparr>res = \<lparr>success = True, processed = 0, matched = 0, unmatched = [], errors = [],
              details = []\<rparr>,
      invoice_groups = [], files = [], updates = []\<rparr>"

text \<open>
  A page with a match: the group of its invoice number is created with the data of
  this match if the number is new, and the page index and text are appended to it.
\<close>

definition append_page :: "nat \<Rightarrow> string \<Rightarrow> page_group \<Rightarrow> page_group" where
  "append_page idx text g = g\<lparr>pages := pages g @ [idx], texts := texts g @ [text]\<rparr>"

definition add_page :: "string \<Rightarrow> invoice_data \<Rightarrow> nat \<Rightarrow> string \<Rightarrow> groups \<Rightarrow> groups" where
  "add_page inv_num d idx text gs =
     (let gs' = (if inv_num \<notin> set (map fst gs)
                 then gs @ [(inv_num, \<lparr>pages = [], texts = [], data = d\<rparr>)]
                 else gs)
      in map (\<lambda>kg. if fst kg = inv_num then (fst kg, append_page idx text (snd kg)) else kg) gs')"

definition error_filename :: "string \<Rightarrow> nat \<Rightarrow> string \<Rightarrow> string" where
  "error_filename timestamp page_num inv_num =
     ''ERROR_NO_PO_'' @ timestamp @ ''_page'' @ show_nat page_num @ ''_'' @ inv_num @ ''.pdf''"

definition unmatched_filename :: "string \<Rightarrow> nat \<Rightarrow> string" where
  "unmatched_filename timestamp page_num =
     ''UNMATCHED_'' @ timestamp @ ''_page'' @ show_nat page_num @ ''.pdf''"

text \<open>
  One iteration of the loop over the pages, for page \<open>page_num\<close> (from 1). An
  exception of \<^verbatim>\<open>extract_invoice_data\<close> leaves the loop: the first component is the
  exception, and the state is what the run had done so far.
\<close>

definition page_step ::
  "env \<Rightarrow> po_map \<Rightarrow> string \<Rightarrow> nat \<Rightarrow> string \<Rightarrow> run_state \<Rightarrow> py_error option \<times> run_state"
where
  "page_step e pm timestamp page_num text s =
     (let s1 = s\<lparr>res := (res s)\<lparr>processed := processed (res s) + 1\<rparr>\<rparr>
      in case extract_invoice_data e text pm of
           Inl err \<Rightarrow> (Some err, s1)
         | Inr (Matched d) \<Rightarrow>
             (None, s1\<lparr>invoice_groups :=
                          add_page (invoice_number d) d (page_num - 1) text (invoice_groups s1)\<rparr>)
         | Inr (NoPO inv_num c msg) \<Rightarrow>
             (None,
              s1\<lparr>res := (res s1)\<lparr>errors := errors (res s1) @
                     [\<lparr>err_page = page_num, err_invoice_number = inv_num, err_cost = c,
                       err_error = ''NO MATCHING PO FOUND'', err_message = msg,
                       err_text_preview = take 300 text\<rparr>]\<rparr>,
                  files := files s1 @ [(error_filename timestamp page_num inv_num, [page_num - 1])]\<rparr>)
         | Inr NoInvoice \<Rightarrow>
             (None,
              s1\<lparr>files := files s1 @ [(unmatched_filename timestamp page_num, [page_num - 1])],
                  res := (res s1)\<lparr>unmatched := unmatched (res s1) @
                     [\<lparr>un_page = page_num, un_text_preview = take 200 text,
                       un_filename = unmatched_filename timestamp page_num\<rparr>]\<rparr>\<rparr>))"

fun page_loop ::
  "env \<Rightarrow> po_map \<Rightarrow> string \<Rightarrow> nat \<Rightarrow> string list \<Rightarrow> run_state \<Rightarrow> py_error option \<times> run_state"
where
  "page_loop e pm timestamp page_num [] s = (None, s)"
| "page_loop e pm timestamp page_num (text # rest) s =
     (case page_step e pm timestamp page_num text s of
        (Some err, s') \<Rightarrow> (Some err, s')
      | (None, s') \<Rightarrow> page_loop e pm timestamp (page_num + 1) rest s')"

text \<open>The file name of a matched group:
  \<^verbatim>\<open>f"PO{po_id:04d}_{timestamp}_INV{inv_num}.pdf"\<close>.\<close>

definition matched_filename :: "int \<Rightarrow> string \<Rightarrow> string \<Rightarrow> string" where
  "matched_filename n timestamp inv_num =
     ''PO'' @ fmt_04d n @ ''_'' @ timestamp @ ''_INV'' @ inv_num @ ''.pdf''"

text \<open>The entry \<^verbatim>\<open>'page'\<close> of a detail: the first page, and the last after a dash
  when the group has more than one. \<^verbatim>\<open>pages[0]\<close> raises on an empty list.\<close>

definition page_label :: "nat list \<Rightarrow> py_error + string" where
  "page_label ps =
     (case ps of
        [] \<Rightarrow> Inl IndexError
      | p # ps' \<Rightarrow>
          Inr (show_nat (p + 1) @
               (if length ps > 1 then ''-'' @ show_nat (last ps + 1) else [])))"

text \<open>One iteration of the loop that saves the groups: the document, the update of
  the PO's row, the count and the detail.\<close>

definition save_group ::
  "po_map \<Rightarrow> string \<Rightarrow> string \<times> page_group \<Rightarrow> run_state \<Rightarrow> py_error option \<times> run_state"
where
  "save_group pm timestamp kg s =
     (let inv_num = fst kg;
          g = snd kg;
          d = data g;
          n = po_id d;
          filename = matched_filename n timestamp inv_num;
          s1 = s\<lparr>files := files s @ [(filename, pages g)],
                 updates := updates s @
                   [\<lparr>upd_filename = filename, upd_invoice_number = inv_num,
                     upd_invoice_cost = cost d, upd_match_method = match_method d,
                     upd_po_id = n\<rparr>],
                 res := (res s)\<lparr>matched := matched (res s) + 1\<rparr>\<rparr>
      in case page_label (pages g) of
           Inl err \<Rightarrow> (Some err, s1)
         | Inr label \<Rightarrow>
             (None,
              s1\<lparr>res := (res s1)\<lparr>details := details (res s1) @
                     [\<lparr>det_page = label, det_po_number = n,
                       det_job_name = (case map_of pm n of Some info \<Rightarrow> job_name info
                                       | None \<Rightarrow> ''Unknown''),
                       det_estimated_cost = (case map_of pm n of
                                               Some info \<Rightarrow> estimated_cost info | None \<Rightarrow> 0),
                       det_invoice_number = inv_num, det_cost = cost d,
                       det_status = ''matched'', det_pages = length (pages g)\<rparr>]\<rparr>\<rparr>))"

fun save_loop ::
  "po_map \<Rightarrow> string \<Rightarrow> groups \<Rightarrow> run_state \<Rightarrow> py_error option \<times> run_state"
where
  "save_loop pm timestamp [] s = (None, s)"
| "save_loop pm timestamp (kg # gs) s =
     (case save_group pm timestamp kg s of
        (Some err, s') \<Rightarrow> (Some err, s')
      | (None, s') \<Rightarrow> save_loop pm timestamp gs s')"

definition failed :: "run_state \<Rightarrow> run_state" where
  "failed s = s\<lparr>res := (res s)\<lparr>success := False\<rparr>\<rparr>"

definition process_bulk_pdf :: "env \<Rightarrow> po_map \<Rightarrow> string list \<Rightarrow> string \<Rightarrow> run_state" where
  "process_bulk_pdf e pm page_texts timestamp =
     (case page_loop e pm timestamp 1 page_texts init_state of
        (Some err, s) \<Rightarrow> failed s
      | (None, s) \<Rightarrow>
          (case save_loop pm timestamp (invoice_groups s) s of
             (Some err, s') \<Rightarrow> failed s'
           | (None, s') \<Rightarrow> s'))"

subsection \<open>The invariant of the matching chain\<close>

text \<open>The names a method stores in \<^verbatim>\<open>match_method\<close>.\<close>

definition method_names :: "string list" where
  "method_names = [''Claude AI'', ''Table Column'', ''Pattern Match'', ''Direct Search'',
                   ''Fuzzy Match'']"

text \<open>Either nothing is stored yet, or a key of \<^verbatim>\<open>po_map\<close> is stored together with
  the name of a method.\<close>

definition chain_ok :: "po_map \<Rightarrow> chain_state \<Rightarrow> bool" where
  "chain_ok pm st =
     (st = (None, None) \<or>
      (\<exists>n m. st = (Some n, Some m) \<and> in_po_map n pm \<and> m \<in> set method_names))"

subsection \<open>Example inputs\<close>

text \<open>An environment with the assist service switched off, one eligible PO, and the
  page of the specification's example: \<^verbatim>\<open>INVOICE # 784512\<close> and
  \<^verbatim>\<open>PO Number: 1012 SOMERVILLE\<close> on two lines.\<close>

definition example_env :: env where
  "example_env =
     \<lparr>claude_enabled = False, active_job_names = [''Somerville''],
      claude_api = (\<lambda>jobs_list po_context excerpt. ApiFailure),
      re_interp = (\<lambda>pattern subject. None)\<rparr>"

definition example_po_map :: po_map where
  "example_po_map =
     [(1012, \<lparr>po_key = 1012, tech_name = ''Ann'', job_name = ''Somerville'',
              estimated_cost = 100\<rparr>)]"

definition example_page :: string where
  "example_page = ''INVOICE # 784512'' @ [CHR 0x0A] @ ''PO Number: 1012 SOMERVILLE''"

subsection \<open>The detector and the grouping, in the specification's words\<close>

text \<open>
  The detector in the words of the specification (section 4.3): an ordered list of
  labelled patterns, the two primary labels first and then the fallback labels, each
  with the identifier it captures. The candidate of a label is the identifier, stripped,
  at the first place of the text where the label's pattern matches. A candidate is
  acceptable when it has at least five characters and is none of \<^verbatim>\<open>date\<close>,
  \<^verbatim>\<open>time\<close>, \<^verbatim>\<open>page\<close> in lower case. The invoice number is the acceptable
  candidate of the first label of the list that has one.
\<close>

text \<open>Five or more digits followed by letters, digits and dashes; and a run of
  letters, digits and dashes.\<close>

definition invoice_digits :: regex where
  "invoice_digits = Grp (Seq (Rep is_digit 5 None True) (Rep is_alnum_dash 0 None True))"

definition id_group :: regex where
  "id_group = Grp (Rep is_alnum_dash 1 None True)"

definition spaces :: regex where
  "spaces = Rep is_space 0 None True"

definition colons_spaces :: regex where
  "colons_spaces = Rep (is_space_or CHR '':'') 0 None True"

definition labelled_patterns :: "(string \<times> regex) list" where
  "labelled_patterns =
     [(''CUSTOMER # / INVOICE #'',
       seqs [lit ''CUSTOMER'', spaces, lit ''#'', spaces, lit ''INVOICE'', spaces, lit ''#'',
             Rep is_any 0 None False, invoice_digits]),
      (''INVOICE #'',
       seqs [lit ''INVOICE'', spaces, lit ''#'', colons_spaces, invoice_digits]),
      (''Invoice #'',
       seqs [lit ''INVOICE'', spaces, lit ''#'', spaces, Opt (lit '':''), spaces, id_group]),
      (''Invoice No/Num'',
       seqs [lit ''INVOICE'', spaces, Alt (Alt (lit ''NO'') (lit ''NUM'')) (lit ''NUMBER''),
             spaces, colons_spaces, id_group]),
      (''Invoice No'',
       seqs [lit ''Invoice'', Rep is_space 1 None True, lit ''No'', spaces, colons_spaces,
             id_group]),
      (''Order #'',
       seqs [lit ''Order'', spaces, lit ''#'', spaces, Opt (lit '':''), spaces, id_group]),
      (''Order No/Num'',
       seqs [lit ''Order'', spaces, Alt (Alt (lit ''NO'') (lit ''NUM'')) (lit ''NUMBER''),
             spaces, Opt (lit '':''), spaces, id_group]),
      (''Sales Order'',
       seqs [lit ''Sales'', spaces, lit ''Order'', spaces, Opt (lit ''#''), spaces,
             Opt (lit '':''), spaces, id_group]),
      (''Work Order'',
       seqs [lit ''Work'', spaces, lit ''Order'', spaces, Opt (lit ''#''), spaces,
             Opt (lit '':''), spaces, id_group]),
      (''Reference #'',
       seqs [lit ''Reference'', spaces, Opt (lit ''#''), spaces, Opt (lit '':''), spaces,
             id_group]),
      (''Ticket #'',
       seqs [lit ''Ticket'', spaces, Opt (lit ''#''), spaces, Opt (lit '':''), spaces,
             id_group]),
      (''Document #'',
       seqs [lit ''Document'', spaces, Opt (lit ''#''), spaces, Opt (lit '':''), spaces,
             id_group]),
      (''Receipt #'',
       seqs [lit ''Receipt'', spaces, Opt (lit ''#''), spaces, Opt (lit '':''), spaces,
             id_group]),
      (''Confirmation #'',
       seqs [lit ''Confirmation'', spaces, Opt (lit ''#''), spaces, Opt (lit '':''), spaces,
             id_group]),
      (''Transaction ID'',
       seqs [lit ''Transaction'', spaces, Opt (Alt (lit ''ID'') (lit ''#'')), spaces,
             colons_spaces, id_group])]"

definition acceptable :: "string \<Rightarrow> bool" where
  "acceptable c = (length c \<ge> 5 \<and> lower c \<notin> set [''date'', ''time'', ''page''])"

definition label_candidate :: "string \<Rightarrow> regex \<Rightarrow> string option" where
  "label_candidate text pattern =
     (case re_search pattern text of
        Some (start, g) \<Rightarrow> Some (strip g)
      | None \<Rightarrow> None)"

fun first_acceptable :: "string option list \<Rightarrow> string option" where
  "first_acceptable [] = None"
| "first_acceptable (None # cs) = first_acceptable cs"
| "first_acceptable (Some c # cs) = (if acceptable c then Some c else first_acceptable cs)"

definition detector_spec :: "string \<Rightarrow> string option" where
  "detector_spec text =
     first_acceptable (map (\<lambda>lp. label_candidate text (snd lp)) labelled_patterns)"

text \<open>
  The indices (from 0) of the pages of a batch whose matching succeeds with the invoice
  number \<open>v\<close>, in ascending order, and the documents of the matched groups among the
  documents a run has written: those whose name starts with \<^verbatim>\<open>PO\<close>.
\<close>

definition matches_invoice :: "env \<Rightarrow> po_map \<Rightarrow> string \<Rightarrow> string \<Rightarrow> bool" where
  "matches_invoice e pm v text =
     (case extract_invoice_data e text pm of
        Inr (Matched d) \<Rightarrow> invoice_number d = v
      | _ \<Rightarrow> False)"

definition matched_pages :: "env \<Rightarrow> po_map \<Rightarrow> string list \<Rightarrow> string \<Rightarrow> nat list" where
  "matched_pages e pm page_texts v =
     filter (\<lambda>i. matches_invoice e pm v (page_texts ! i)) [0..<length page_texts]"

definition matched_documents :: "run_state \<Rightarrow> (string \<times> nat list) list" where
  "matched_documents r = filter (\<lambda>f. starts_with (fst f) ''PO'') (files r)"

text \<open>No page up to index \<open>i\<close> raises.\<close>

definition no_exception_upto :: "env \<Rightarrow> po_map \<Rightarrow> string list \<Rightarrow> nat \<Rightarrow> bool" where
  "no_exception_upto e pm page_texts i =
     list_all (\<lambda>text. case extract_invoice_data e text pm of Inl err \<Rightarrow> False | Inr out \<Rightarrow> True)
              (take (i + 1) page_texts)"

text \<open>A page without an invoice number.\<close>

definition example_blank_page :: string where
  "example_blank_page = ''hello''"

subsection \<open>The loops of a run, page by page\<close>

text \<open>
  What the loop over the pages has built when it reaches its end or its first
  exception, as functions of the pages before that exception: the error records, the
  documents written, the unmatched records and the groups. \<open>n\<close> is the number of the
  first page of the list.
\<close>

definition no_exception :: "env \<Rightarrow> po_map \<Rightarrow> string \<Rightarrow> bool" where
  "no_exception e pm text =
     (case extract_invoice_data e text pm of Inl err \<Rightarrow> False | Inr out \<Rightarrow> True)"

definition error_record :: "nat \<Rightarrow> string \<Rightarrow> string \<Rightarrow> string \<Rightarrow> string \<Rightarrow> error_rec" where
  "error_record page_num inv_num c msg text =
     \<lparr>err_page = page_num, err_invoice_number = inv_num, err_cost = c,
      err_error = ''NO MATCHING PO FOUND'', err_message = msg,
      err_text_preview = take 300 text\<rparr>"

fun errors_of :: "env \<Rightarrow> po_map \<Rightarrow> nat \<Rightarrow> string list \<Rightarrow> error_rec list" where
  "errors_of e pm n [] = []"
| "errors_of e pm n (text # rest) =
     (case extract_invoice_data e text pm of
        Inr (NoPO inv_num c msg) \<Rightarrow> [error_record n inv_num c msg text]
      | _ \<Rightarrow> []) @ errors_of e pm (n + 1) rest"

fun files_of :: "env \<Rightarrow> po_map \<Rightarrow> string \<Rightarrow> nat \<Rightarrow> string list \<Rightarrow> (string \<times> nat list) list" where
  "files_of e pm ts n [] = []"
| "files_of e pm ts n (text # rest) =
     (case extract_invoice_data e text pm of
        Inr (NoPO inv_num c msg) \<Rightarrow> [(error_filename ts n inv_num, [n - 1])]
      | Inr NoInvoice \<Rightarrow> [(unmatched_filename ts n, [n - 1])]
      | _ \<Rightarrow> []) @ files_of e pm ts (n + 1) rest"

fun groups_of :: "env \<Rightarrow> po_map \<Rightarrow> nat \<Rightarrow> string list \<Rightarrow> groups \<Rightarrow> groups" where
  "groups_of e pm n [] gs = gs"
| "groups_of e pm n (text # rest) gs =
     groups_of e pm (n + 1) rest
       (case extract_invoice_data e text pm of
          Inr (Matched d) \<Rightarrow> add_page (invoice_number d) d (n - 1) text gs
        | _ \<Rightarrow> gs)"

text \<open>The indices, from \<open>i\<close> on, of the pages of a list that match with the invoice
  number \<open>v\<close>, and the data of the first of them.\<close>

fun pages_from :: "env \<Rightarrow> po_map \<Rightarrow> string \<Rightarrow> nat \<Rightarrow> string list \<Rightarrow> nat list" where
  "pages_from e pm v i [] = []"
| "pages_from e pm v i (text # rest) =
     (if matches_invoice e pm v text then [i] else []) @ pages_from e pm v (i + 1) rest"

fun first_data :: "env \<Rightarrow> po_map \<Rightarrow> string \<Rightarrow> string list \<Rightarrow> invoice_data option" where
  "first_data e pm v [] = None"
| "first_data e pm v (text # rest) =
     (case extract_invoice_data e text pm of
        Inr (Matched d) \<Rightarrow> (if invoice_number d = v then Some d else first_data e pm v rest)
      | _ \<Rightarrow> first_data e pm v rest)"

definition pages_of :: "groups \<Rightarrow> string \<Rightarrow> nat list" where
  "pages_of gs v = (case map_of gs v of None \<Rightarrow> [] | Some g \<Rightarrow> pages g)"

text \<open>What the loop over the groups appends for one group.\<close>

definition document_of :: "string \<Rightarrow> string \<times> page_group \<Rightarrow> string \<times> nat list" where
  "document_of ts kg = (matched_filename (po_id (data (snd kg))) ts (fst kg), pages (snd kg))"

definition update_of :: "string \<Rightarrow> string \<times> page_group \<Rightarrow> db_update" where
  "update_of ts kg =
     \<lparr>upd_filename = matched_filename (po_id (data (snd kg))) ts (fst kg),
      upd_invoice_number = fst kg,
      upd_invoice_cost = cost (data (snd kg)),
      upd_match_method = match_method (data (snd kg)),
      upd_po_id = po_id (data (snd kg))\<rparr>"

section \<open>Properties\<close>

subsection \<open>The edit distance table\<close>

text \<open>The table of \<^verbatim>\<open>levenshtein_distance\<close> holds the reference distances of the
  prefixes, so the result is the reference distance, which is symmetric and at most the
  longer length.\<close>

lemma edr_Nil2: "edr xs [] = length xs"
  by (cases xs) simp_all

lemma edr_sym: "edr xs ys = edr ys xs"
  by (induction xs ys rule: edr.induct) (simp_all add: edr_Nil2 min.commute min.left_commute)

lemma edr_le_max: "edr xs ys \<le> max (length xs) (length ys)"
  by (induction xs ys rule: edr.induct) (auto simp: min_le_iff_disj)

lemma ed_row_hd: "ed_row a b cs = edr a b # tl (ed_row a b cs)"
  by (cases cs) simp_all

lemma lev_row_ed_row:
  "lev_row c1 (ed_row a b cs) cs (edr (c1 # a) b) = tl (ed_row (c1 # a) b cs)"
proof (induction cs arbitrary: b)
  case Nil
  show ?case by simp
next
  case (Cons c cs)
  obtain ps where h: "ed_row a (c # b) cs = edr a (c # b) # ps"
    using ed_row_hd by blast
  have t: "tl (ed_row (c1 # a) b (c # cs)) = ed_row (c1 # a) (c # b) cs"
    by simp
  have "lev_row c1 (ed_row a b (c # cs)) (c # cs) (edr (c1 # a) b)
      = lev_row c1 (edr a b # edr a (c # b) # ps) (c # cs) (edr (c1 # a) b)"
    using h by simp
  also have "\<dots> = edr (c1 # a) (c # b) # lev_row c1 (edr a (c # b) # ps) cs (edr (c1 # a) (c # b))"
    by (simp add: Let_def)
  also have "\<dots> = edr (c1 # a) (c # b) # tl (ed_row (c1 # a) (c # b) cs)"
    using Cons.IH [of "c # b"] h by simp
  also have "\<dots> = ed_row (c1 # a) (c # b) cs"
    using ed_row_hd [of "c1 # a" "c # b" cs] by simp
  finally show ?case using t by simp
qed

lemma lev_rows_ed_row:
  "lev_rows (length a) s1 s2 (ed_row a [] s2) = ed_row (rev s1 @ a) [] s2"
proof (induction s1 arbitrary: a)
  case Nil
  show ?case by simp
next
  case (Cons c1 s1)
  have "(length a + 1) # lev_row c1 (ed_row a [] s2) s2 (length a + 1) = ed_row (c1 # a) [] s2"
    using lev_row_ed_row [of c1 a "[]" s2] ed_row_hd [of "c1 # a" "[]" s2] by simp
  then show ?case using Cons.IH [of "c1 # a"] by simp
qed

lemma ed_row_Nil1: "ed_row [] b cs = [length b..<length b + length cs + 1]"
  by (induction cs arbitrary: b) (simp_all add: upt_rec)

lemma ed_row_ne: "ed_row a b cs \<noteq> []"
  by (cases cs) simp_all

lemma last_ed_row: "last (ed_row a b cs) = edr a (rev cs @ b)"
  by (induction cs arbitrary: b) (simp_all add: ed_row_ne)

lemma lev_main_edr: "lev_main s1 s2 = edr (rev s1) (rev s2)"
proof (cases "s2 = []")
  case True
  then show ?thesis by (simp add: lev_main_def edr_Nil2)
next
  case False
  have "lev_rows 0 s1 s2 [0..<length s2 + 1] = ed_row (rev s1) [] s2"
    using lev_rows_ed_row [of "[]" s1 s2] ed_row_Nil1 [of "[]" s2] by simp
  then show ?thesis using False by (simp add: lev_main_def last_ed_row)
qed

lemma levenshtein_distance_edr: "levenshtein_distance s1 s2 = edr (rev s1) (rev s2)"
  by (simp add: levenshtein_distance_def lev_main_edr edr_sym)

lemma levenshtein_distance_sym: "levenshtein_distance s1 s2 = levenshtein_distance s2 s1"
  by (simp add: levenshtein_distance_edr edr_sym)

lemma levenshtein_distance_le: "levenshtein_distance s1 s2 \<le> max (length s1) (length s2)"
  using edr_le_max [of "rev s1" "rev s2"] by (simp add: levenshtein_distance_edr)

lemma fuzzy_match_score_sym: "fuzzy_match_score a b = fuzzy_match_score b a"
  by (auto simp: fuzzy_match_score_def Let_def levenshtein_distance_sym)

lemma fuzzy_match_score_range: "0 \<le> fuzzy_match_score a b \<and> fuzzy_match_score a b \<le> 1"
  by (auto simp: fuzzy_match_score_def Let_def)

lemma normalize_Nil: "normalize_text_for_matching [] = []"
  by (simp add: normalize_text_for_matching_def)

lemma fuzzy_match_score_self: "normalize_text_for_matching a \<noteq> [] \<Longrightarrow> fuzzy_match_score a a = 1"
  using normalize_Nil by (auto simp: fuzzy_match_score_def Let_def)

subsection \<open>Claims on the fuzzy text primitives\<close>

text \<open>
  C9. The claim: \<^verbatim>\<open>normalize(normalize(x)) == normalize(x)\<close> for every string.
  The program collapses whitespace before it removes punctuation, so a punctuation
  character between two spaces leaves two adjacent spaces, which a second pass
  collapses: on \<^verbatim>\<open>"a ! b"\<close> the first pass gives \<^verbatim>\<open>"A  B"\<close> and the second
  \<^verbatim>\<open>"A B"\<close>.
\<close>

theorem normalize_not_idempotent:
  "normalize_text_for_matching ''a ! b'' = ''A  B'' \<and>
   normalize_text_for_matching (normalize_text_for_matching ''a ! b'') = ''A B''"
  by code_simp

text \<open>
  C10. The claim: the similarity lies in [0, 1], is symmetric, and is 1 on \<open>(a, a)\<close>
  for every non-empty \<open>a\<close>. The last part fails on a non-empty string whose normal
  form is empty, where the program returns 0.
\<close>

theorem fuzzy_match_score_self_counterexample:
  "''!'' \<noteq> [] \<and> fuzzy_match_score ''!'' ''!'' \<noteq> 1"
  by code_simp

text \<open>
  C10, as amended: the similarity lies in [0, 1] and is symmetric for all strings, and
  it is 1 on \<open>(a, a)\<close> for every \<open>a\<close> whose normal form is not empty.
\<close>

theorem fuzzy_match_score_properties:
  "0 \<le> fuzzy_match_score a b \<and> fuzzy_match_score a b \<le> 1 \<and>
   fuzzy_match_score a b = fuzzy_match_score b a \<and>
   (normalize_text_for_matching a \<noteq> [] \<longrightarrow> fuzzy_match_score a a = 1)"
  using fuzzy_match_score_range [of a b] fuzzy_match_score_sym [of a b]
    fuzzy_match_score_self [of a]
  by blast

theorem fuzzy_match_score_properties_witness:
  "normalize_text_for_matching ''Herons Glen'' \<noteq> [] \<and>
   fuzzy_match_score ''Herons Glen'' ''Herons Glen'' = 1 \<and>
   fuzzy_match_score ''Herons Glen'' ''HERONS GELN'' = fuzzy_match_score ''HERONS GELN'' ''Herons Glen'' \<and>
   0 \<le> fuzzy_match_score ''Herons Glen'' ''HERONS GELN'' \<and>
   fuzzy_match_score ''Herons Glen'' ''HERONS GELN'' \<le> 1"
proof -
  have h: "normalize_text_for_matching ''Herons Glen'' \<noteq> []"
    by code_simp
  show ?thesis
    using h fuzzy_match_score_properties [of "''Herons Glen''" "''HERONS GELN''"]
    by blast
qed

subsection \<open>The matching chain keeps to the eligible POs\<close>

lemma chain_ok_init: "chain_ok pm (None, None)"
  by (simp add: chain_ok_def)

lemma chain_ok_set: "in_po_map n pm \<Longrightarrow> m \<in> set method_names \<Longrightarrow> chain_ok pm (Some n, Some m)"
  by (simp add: chain_ok_def)

lemma match_invoice_with_claude_in_map:
  "match_invoice_with_claude e text jobs pm = (Some n, j, c) \<Longrightarrow> in_po_map n pm"
  by (auto simp: match_invoice_with_claude_def Let_def
      split: if_splits api_result.splits option.splits)

lemma claude_step_ok: "chain_ok pm (claude_step e text pm)"
proof (cases "match_invoice_with_claude e text (active_job_names e) pm")
  case (fields po j c)
  show ?thesis
  proof (cases po)
    case None
    then show ?thesis using fields
      by (simp add: claude_step_def claude_accepts_def truthy_def chain_ok_init)
  next
    case (Some n)
    then have "in_po_map n pm"
      using fields match_invoice_with_claude_in_map by blast
    then show ?thesis using fields Some
      by (simp add: claude_step_def chain_ok_init chain_ok_set method_names_def)
  qed
qed

lemma try_candidates_ok:
  "chain_ok pm st \<Longrightarrow> m \<in> set method_names \<Longrightarrow> chain_ok pm (try_candidates pm m ms st)"
  by (induction ms) (auto simp: chain_ok_set split: option.splits)

lemma number_loop_ok: "chain_ok pm st \<Longrightarrow> chain_ok pm (number_loop pm line ps st)"
  by (induction ps arbitrary: st) (auto simp: try_candidates_ok method_names_def)

lemma lines_loop_ok: "chain_ok pm st \<Longrightarrow> chain_ok pm (lines_loop pm ls st)"
  by (induction ls arbitrary: st) (auto simp: number_loop_ok)

lemma header_loop_ok: "chain_ok pm st \<Longrightarrow> chain_ok pm (header_loop pm text hs st)"
  by (induction hs arbitrary: st) (auto simp: lines_loop_ok Let_def split: option.splits)

lemma pattern_loop_ok: "chain_ok pm st \<Longrightarrow> chain_ok pm (pattern_loop pm text ps st)"
  by (induction ps arbitrary: st) (auto simp: try_candidates_ok method_names_def Let_def)

lemma direct_loop_ok:
  "direct_loop e text items st = Inr st' \<Longrightarrow> set (map fst items) \<subseteq> set (map fst pm) \<Longrightarrow>
   chain_ok pm st \<Longrightarrow> chain_ok pm st'"
proof (induction items)
  case Nil
  then show ?case by simp
next
  case (Cons item items)
  obtain k info where item: "item = (k, info)" by (cases item)
  have k: "in_po_map k pm" using Cons.prems(2) item by (auto simp: in_po_map_def)
  have ok: "chain_ok pm (Some k, Some ''Direct Search'')"
    using k by (simp add: chain_ok_set method_names_def)
  show ?case using Cons item ok
    by (auto simp: Let_def split: if_splits option.splits bool.splits)
qed

lemma near_candidates_ok: "chain_ok pm st \<Longrightarrow> chain_ok pm (near_candidates pm job ns st)"
  by (induction ns) (auto simp: chain_ok_set method_names_def Let_def split: option.splits)

lemma fuzzy_loop_ok: "chain_ok pm st \<Longrightarrow> chain_ok pm (fuzzy_loop text pm jobs st)"
  by (induction jobs arbitrary: st) (auto simp: near_candidates_ok Let_def split: prod.splits)

lemma first_in_text_ok:
  "chain_ok pm st \<Longrightarrow> set ids \<subseteq> set (map fst pm) \<Longrightarrow> chain_ok pm (first_in_text text ids st)"
  by (induction ids) (auto simp: chain_ok_set method_names_def in_po_map_def)

lemma broad_loop_ok: "chain_ok pm st \<Longrightarrow> chain_ok pm (broad_loop text pm jobs st)"
proof (induction jobs arbitrary: st)
  case Nil
  then show ?case by simp
next
  case (Cons job jobs)
  have sub: "set (map fst (filter P pm)) \<subseteq> set (map fst pm)" for P
    by auto
  show ?case using Cons sub
    by (auto simp: first_in_text_ok Let_def split: prod.splits)
qed

lemma fuzzy_scan_ok: "chain_ok pm st \<Longrightarrow> chain_ok pm (fuzzy_scan e text pm st)"
  by (simp add: fuzzy_scan_def Let_def fuzzy_loop_ok broad_loop_ok)

lemma find_po_number_ok: "find_po_number e text pm = Inr st \<Longrightarrow> chain_ok pm st"
proof -
  assume a: "find_po_number e text pm = Inr st"
  let ?st2 = "header_loop pm text header_patterns (claude_step e text pm)"
  let ?st3 = "if \<not> truthy (fst ?st2) then pattern_loop pm text po_patterns ?st2 else ?st2"
  have ok3: "chain_ok pm ?st3"
    by (simp add: claude_step_ok header_loop_ok pattern_loop_ok)
  obtain st4 where st4: "(if \<not> truthy (fst ?st3) \<and> pm \<noteq> [] then direct_loop e text pm ?st3 else Inr ?st3) = Inr st4"
    and st: "st = (if \<not> truthy (fst st4) \<and> pm \<noteq> [] then fuzzy_scan e text pm st4 else st4)"
    using a by (auto simp: find_po_number_def Let_def split: sum.splits)
  have "chain_ok pm st4"
    using st4 ok3 direct_loop_ok [of e "text" pm "?st3" st4 pm]
    by (auto split: if_splits)
  then show ?thesis using st by (simp add: fuzzy_scan_ok)
qed

lemma extract_invoice_data_matched:
  "extract_invoice_data e text pm = Inr (Matched d) \<Longrightarrow>
   in_po_map (po_id d) pm \<and> match_method d \<in> set (map Some method_names)"
proof -
  assume a: "extract_invoice_data e text pm = Inr (Matched d)"
  then obtain po m where f: "find_po_number e text pm = Inr (po, m)"
    and d: "po = Some (po_id d)" "m = match_method d"
    by (auto simp: extract_invoice_data_def Let_def
        split: if_splits option.splits sum.splits prod.splits)
  have "chain_ok pm (po, m)" using f by (rule find_po_number_ok)
  then show ?thesis using d by (auto simp: chain_ok_def)
qed

text \<open>The page of the specification's example resolves to PO 1012 by the table column
  method.\<close>

lemma example_page_matched:
  "\<exists>d. extract_invoice_data example_env example_page example_po_map = Inr (Matched d) \<and>
       po_id d = 1012 \<and> invoice_number d = ''784512'' \<and> cost d = ''0.00'' \<and>
       match_method d = Some ''Table Column''"
proof -
  have "case extract_invoice_data example_env example_page example_po_map of
          Inr (Matched d) \<Rightarrow> po_id d = 1012 \<and> invoice_number d = ''784512'' \<and>
             cost d = ''0.00'' \<and> match_method d = Some ''Table Column''
        | _ \<Rightarrow> False"
    by code_simp
  then show ?thesis
    by (auto split: sum.splits outcome.splits)
qed

text \<open>
  C1. Whenever \<^verbatim>\<open>extract_invoice_data\<close> returns a match, its \<^verbatim>\<open>po_id\<close> is a key of
  the eligible-PO map it was given, and the match was stored by one of the five
  methods (AI-assist, table column, pattern, direct search, fuzzy job scan).
\<close>

theorem extract_invoice_data_po_eligible:
  "extract_invoice_data e text pm = Inr (Matched d) \<Longrightarrow>
   in_po_map (po_id d) pm \<and> match_method d \<in> set (map Some method_names)"
  by (rule extract_invoice_data_matched)

theorem extract_invoice_data_po_eligible_witness:
  "\<exists>d. extract_invoice_data example_env example_page example_po_map = Inr (Matched d) \<and>
       in_po_map (po_id d) example_po_map \<and> match_method d \<in> set (map Some method_names)"
proof -
  obtain d where d: "extract_invoice_data example_env example_page example_po_map = Inr (Matched d)"
    using example_page_matched by blast
  show ?thesis
    using d extract_invoice_data_po_eligible [OF d] by blast
qed

subsection \<open>The invoice number detector\<close>

text \<open>The two pattern lists of the program, one after the other, are the patterns of
  the specification's list of labels, in its order.\<close>

lemma labelled_patterns_code:
  "map snd labelled_patterns = customer_invoice_patterns @ order_patterns"
  by (simp add: labelled_patterns_def customer_invoice_patterns_def order_patterns_def
      invoice_digits_def id_group_def spaces_def colons_spaces_def grp_inv5_def grp_id_def
      ws_def ws1_def star_def plus_def at_least_def no_num_number_def hash_colon_def alts_def
      seqs_def)

text \<open>The test of the primary loop, on the length alone, accepts what the test of the
  fallback loop accepts: a word of four letters has no five characters.\<close>

lemma primary_ok_acceptable: "primary_ok c = acceptable c"
proof -
  have "length (lower c) = length c"
    by (simp add: lower_def)
  then show ?thesis
    by (auto simp: primary_ok_def acceptable_def)
qed

lemma fallback_ok_acceptable: "fallback_ok c = acceptable c"
  by (auto simp: fallback_ok_def acceptable_def)

lemma first_accepted_spec:
  assumes "\<And>c. ok c = acceptable c"
  shows "first_accepted ok ps t = first_acceptable (map (label_candidate t) ps)"
  using assms
  by (induction ps) (auto simp: label_candidate_def Let_def split: option.splits)

lemma first_acceptable_append:
  "first_acceptable (xs @ ys) =
     (case first_acceptable xs of Some c \<Rightarrow> Some c | None \<Rightarrow> first_acceptable ys)"
  by (induction xs rule: first_acceptable.induct) auto

lemma find_invoice_number_spec: "find_invoice_number t = detector_spec t"
proof -
  have "detector_spec t = first_acceptable (map (label_candidate t) (map snd labelled_patterns))"
    by (simp add: detector_spec_def comp_def)
  also have "\<dots> =
      (case first_acceptable (map (label_candidate t) customer_invoice_patterns) of
         Some c \<Rightarrow> Some c
       | None \<Rightarrow> first_acceptable (map (label_candidate t) order_patterns))"
    by (simp only: labelled_patterns_code map_append first_acceptable_append)
  also have "\<dots> = find_invoice_number t"
    by (simp add: find_invoice_number_def first_accepted_spec [OF primary_ok_acceptable]
        first_accepted_spec [OF fallback_ok_acceptable] split: option.splits)
  finally show ?thesis by simp
qed

lemma first_accepted_ok: "first_accepted ok ps t = Some c \<Longrightarrow> ok c"
  by (induction ps) (auto simp: Let_def split: option.splits if_splits)

lemma find_invoice_number_accepted:
  assumes "find_invoice_number t = Some v"
  shows "length v \<ge> 5 \<and> lower v \<notin> set [''date'', ''time'', ''page'']"
proof -
  have "primary_ok v \<or> fallback_ok v"
    using assms first_accepted_ok
    by (fastforce simp: find_invoice_number_def split: option.splits)
  then have "acceptable v"
    by (auto simp: primary_ok_acceptable fallback_ok_acceptable)
  then show ?thesis
    by (simp add: acceptable_def)
qed

lemma extract_no_invoice:
  "find_invoice_number t = None \<Longrightarrow> extract_invoice_data e t pm = Inr NoInvoice"
  by (simp add: extract_invoice_data_def)

lemma page_step_no_invoice:
  assumes "find_invoice_number t = None"
  shows "fst (page_step e pm ts n t s) = None \<and>
     unmatched (res (snd (page_step e pm ts n t s))) =
       unmatched (res s) @ [\<lparr>un_page = n, un_text_preview = take 200 t,
                              un_filename = unmatched_filename ts n\<rparr>] \<and>
     errors (res (snd (page_step e pm ts n t s))) = errors (res s) \<and>
     invoice_groups (snd (page_step e pm ts n t s)) = invoice_groups s"
  using extract_no_invoice [OF assms, of e pm]
  by (simp add: page_step_def Let_def)

text \<open>
  C4. The detector of the program is the detector of the specification: over the list
  of labels written out in \<open>labelled_patterns\<close> (the two primary labels, then the
  thirteen fallback labels, in the listed order) it returns the acceptable candidate
  of the first label that has one. A returned identifier has at least five characters
  and is none of \<^verbatim>\<open>date\<close>, \<^verbatim>\<open>time\<close>, \<^verbatim>\<open>page\<close> in lower case. When no label yields
  an acceptable candidate there is no invoice number, the extraction returns nothing,
  and the page is recorded as unmatched (and neither as an error nor in a group).
\<close>

theorem find_invoice_number_detector:
  "find_invoice_number text = detector_spec text \<and>
   (find_invoice_number text = Some v \<longrightarrow>
      length v \<ge> 5 \<and> lower v \<notin> set [''date'', ''time'', ''page'']) \<and>
   (find_invoice_number text = None \<longrightarrow>
      extract_invoice_data e text pm = Inr NoInvoice \<and>
      fst (page_step e pm ts n text s) = None \<and>
      unmatched (res (snd (page_step e pm ts n text s))) =
        unmatched (res s) @ [\<lparr>un_page = n, un_text_preview = take 200 text,
                               un_filename = unmatched_filename ts n\<rparr>] \<and>
      errors (res (snd (page_step e pm ts n text s))) = errors (res s) \<and>
      invoice_groups (snd (page_step e pm ts n text s)) = invoice_groups s)"
  using find_invoice_number_spec [of "text"] find_invoice_number_accepted [of "text" v]
    extract_no_invoice [of "text" e pm] page_step_no_invoice [of "text" e pm ts n s]
  by blast

text \<open>
  The witness runs the detector on five pages. The second is decided by the first
  primary label, which passes over the short customer number. On the third the label
  \<^verbatim>\<open>Invoice No/Num\<close> wins over the label \<^verbatim>\<open>Order #\<close>, which comes later in the list
  although its match comes earlier in the text. On the fourth the candidate \<^verbatim>\<open>12\<close> of
  \<^verbatim>\<open>Order #\<close> is rejected and the later label \<^verbatim>\<open>Ticket #\<close> gives the number. The
  last page has no label.
\<close>

theorem find_invoice_number_detector_witness:
  "find_invoice_number example_page = Some ''784512'' \<and>
   length ''784512'' \<ge> 5 \<and> lower ''784512'' \<notin> set [''date'', ''time'', ''page''] \<and>
   detector_spec ''CUSTOMER # INVOICE # 123 7845123'' = Some ''7845123'' \<and>
   detector_spec ''Order # ABCDE then Invoice No: FM10979-3'' = Some ''FM10979-3'' \<and>
   detector_spec ''Order # 12 Ticket: ABC-12345'' = Some ''ABC-12345'' \<and>
   find_invoice_number example_blank_page = None \<and>
   extract_invoice_data example_env example_blank_page example_po_map = Inr NoInvoice \<and>
   unmatched (res (snd (page_step example_env example_po_map ''T'' 1 example_blank_page init_state))) =
     unmatched (res init_state) @
       [\<lparr>un_page = 1, un_text_preview = take 200 example_blank_page,
         un_filename = unmatched_filename ''T'' 1\<rparr>]"
proof -
  have h1: "find_invoice_number example_page = Some ''784512''"
    by code_simp
  have h2: "find_invoice_number ''CUSTOMER # INVOICE # 123 7845123'' = Some ''7845123''"
    by code_simp
  have h3: "find_invoice_number ''Order # ABCDE then Invoice No: FM10979-3'' = Some ''FM10979-3''"
    by code_simp
  have h4: "find_invoice_number ''Order # 12 Ticket: ABC-12345'' = Some ''ABC-12345''"
    by code_simp
  have h5: "find_invoice_number example_blank_page = None"
    by code_simp
  have a: "length ''784512'' \<ge> 5 \<and> lower ''784512'' \<notin> set [''date'', ''time'', ''page'']"
    using h1 find_invoice_number_detector [of example_page "''784512''"] by blast
  have b: "detector_spec ''CUSTOMER # INVOICE # 123 7845123'' = Some ''7845123''"
    using h2 find_invoice_number_detector [of "''CUSTOMER # INVOICE # 123 7845123''"] by simp
  have c: "detector_spec ''Order # ABCDE then Invoice No: FM10979-3'' = Some ''FM10979-3''"
    using h3 find_invoice_number_detector [of "''Order # ABCDE then Invoice No: FM10979-3''"]
    by simp
  have d: "detector_spec ''Order # 12 Ticket: ABC-12345'' = Some ''ABC-12345''"
    using h4 find_invoice_number_detector [of "''Order # 12 Ticket: ABC-12345''"] by simp
  show ?thesis
    using h1 h5 a b c d
      find_invoice_number_detector
        [of example_blank_page _ example_env example_po_map "''T''" 1 init_state]
    by blast
qed

end
